theory Spec2Isabelle
  imports Complex_Main "HOL-Library.Word"
begin

unbundle bit_operations_syntax

section \<open>The RFM95W / SX127x LoRa driver (namespace Lora of rfm95w.ts)\<close>

text \<open>
  The driver is a TypeScript module with module-level variables. It is embedded with
  explicit state passing: one record \<open>sys\<close> holds the module variables, the handler
  registrations of the runtime, and the hardware the driver talks to. Numbers that the
  driver computes with are \<open>int\<close>; bytes on the SPI bus and in chip registers are
  \<open>8 word\<close>; the one fractional result (the SNR in dB) is a \<open>rat\<close>.
\<close>

subsection \<open>Enumerations and constants\<close>

datatype Band = EU868 | AU915

text \<open>
  SpreadingFactor, Bandwidth and CodingRate are numeric enums that the code shifts
  into register fields, and TypeScript accepts any number where they are expected:
  the setters take an \<open>int\<close>, and the members are named constants.
\<close>

definition SF7 :: int where "SF7 = 7"
definition SF8 :: int where "SF8 = 8"
definition SF9 :: int where "SF9 = 9"
definition SF10 :: int where "SF10 = 10"
definition SF11 :: int where "SF11 = 11"
definition SF12 :: int where "SF12 = 12"

definition BW7k8 :: int where "BW7k8 = 0"
definition BW10k4 :: int where "BW10k4 = 1"
definition BW15k6 :: int where "BW15k6 = 2"
definition BW20k8 :: int where "BW20k8 = 3"
definition BW31k25 :: int where "BW31k25 = 4"
definition BW41k7 :: int where "BW41k7 = 5"
definition BW62k5 :: int where "BW62k5 = 6"
definition BW125k :: int where "BW125k = 7"
definition BW250k :: int where "BW250k = 8"
definition BW500k :: int where "BW500k = 9"

definition CR45 :: int where "CR45 = 1"
definition CR46 :: int where "CR46 = 2"
definition CR47 :: int where "CR47 = 3"
definition CR48 :: int where "CR48 = 4"

definition REG_FIFO :: int where "REG_FIFO = 0x00"
definition REG_OP_MODE :: int where "REG_OP_MODE = 0x01"
definition REG_FRF_MSB :: int where "REG_FRF_MSB = 0x06"
definition REG_FRF_MID :: int where "REG_FRF_MID = 0x07"
definition REG_FRF_LSB :: int where "REG_FRF_LSB = 0x08"
definition REG_PA_CONFIG :: int where "REG_PA_CONFIG = 0x09"
definition REG_LNA :: int where "REG_LNA = 0x0C"
definition REG_FIFO_ADDR_PTR :: int where "REG_FIFO_ADDR_PTR = 0x0D"
definition REG_FIFO_TX_BASE_ADDR :: int where "REG_FIFO_TX_BASE_ADDR = 0x0E"
definition REG_FIFO_RX_BASE_ADDR :: int where "REG_FIFO_RX_BASE_ADDR = 0x0F"
definition REG_FIFO_RX_CURRENT_ADDR :: int where "REG_FIFO_RX_CURRENT_ADDR = 0x10"
definition REG_IRQ_FLAGS :: int where "REG_IRQ_FLAGS = 0x12"
definition REG_RX_NB_BYTES :: int where "REG_RX_NB_BYTES = 0x13"
definition REG_PKT_SNR_VALUE :: int where "REG_PKT_SNR_VALUE = 0x19"
definition REG_PKT_RSSI_VALUE :: int where "REG_PKT_RSSI_VALUE = 0x1A"
definition REG_RSSI_VALUE :: int where "REG_RSSI_VALUE = 0x1B"
definition REG_MODEM_CONFIG_1 :: int where "REG_MODEM_CONFIG_1 = 0x1D"
definition REG_MODEM_CONFIG_2 :: int where "REG_MODEM_CONFIG_2 = 0x1E"
definition REG_PREAMBLE_MSB :: int where "REG_PREAMBLE_MSB = 0x20"
definition REG_PREAMBLE_LSB :: int where "REG_PREAMBLE_LSB = 0x21"
definition REG_PAYLOAD_LENGTH :: int where "REG_PAYLOAD_LENGTH = 0x22"
definition REG_MODEM_CONFIG_3 :: int where "REG_MODEM_CONFIG_3 = 0x26"
definition REG_SYNC_WORD :: int where "REG_SYNC_WORD = 0x39"
definition REG_DIO_MAPPING_1 :: int where "REG_DIO_MAPPING_1 = 0x40"
definition REG_VERSION :: int where "REG_VERSION = 0x42"
definition REG_PA_DAC :: int where "REG_PA_DAC = 0x4D"

definition MODE_LONG_RANGE :: int where "MODE_LONG_RANGE = 0x80"
definition MODE_SLEEP :: int where "MODE_SLEEP = 0x00"
definition MODE_STDBY :: int where "MODE_STDBY = 0x01"
definition MODE_TX :: int where "MODE_TX = 0x03"
definition MODE_RX_CONTINUOUS :: int where "MODE_RX_CONTINUOUS = 0x05"

definition IRQ_RX_DONE :: int where "IRQ_RX_DONE = 0x40"
definition IRQ_TX_DONE :: int where "IRQ_TX_DONE = 0x08"
definition IRQ_PAYLOAD_CRC_ERROR :: int where "IRQ_PAYLOAD_CRC_ERROR = 0x20"
definition IRQ_CLEAR_ALL :: int where "IRQ_CLEAR_ALL = 0xFF"

definition BW_KHZ_X100 :: "int list" where
  "BW_KHZ_X100 = [780, 1040, 1560, 2080, 3125, 4170, 6250, 12500, 25000, 50000]"

definition LORA_EVENT_ID :: int where "LORA_EVENT_ID = 3110"
definition INT_DIO0 :: int where "INT_DIO0 = 0"
definition APP_TX :: int where "APP_TX = 2"

subsection \<open>JavaScript integer operators\<close>

text \<open>
  The shift operators of TypeScript convert the left operand to a signed 32-bit
  integer and take the shift count modulo 32. The operands of \<open>&\<close> and \<open>|\<close> in this
  driver are always within the signed 32-bit range (register bytes, constants and
  results of shifts), where the operators agree with \<open>AND\<close> and \<open>OR\<close> on \<open>int\<close>.
\<close>

definition to_int32 :: "int \<Rightarrow> int" where
  "to_int32 x = sint (word_of_int x :: 32 word)"

definition js_shl :: "int \<Rightarrow> int \<Rightarrow> int" where
  "js_shl x n = to_int32 (push_bit (nat (n mod 32)) (to_int32 x))"

definition js_sar :: "int \<Rightarrow> int \<Rightarrow> int" where
  "js_sar x n = drop_bit (nat (n mod 32)) (to_int32 x)"

subsection \<open>The hardware: pins, the SPI bus and the radio chip\<close>

text \<open>
  The chip is outside the repository. It is modelled as far as the driver's register
  protocol needs (section 4.1 and 6 of the specification):
  \<^item> a frame starts when chip select (NSS) goes low; the first byte carries the
    read/write bit (bit 7) and the 7-bit register address, the following bytes are data;
  \<^item> address 0 is the FIFO window: each data byte reads or writes the packet buffer
    at the FIFO address pointer (register 0x0D), which then advances; the address of
    any other register advances by one after each data byte of a burst;
  \<^item> writing to the status register 0x12 clears the flags whose bits are written as 1;
  \<^item> every other register keeps the byte last written to it;
  \<^item> a low level on the reset pin restores the power-on register values \<open>por\<close>.
  The chip's own mode changes (for instance falling back to standby when a
  transmission is over) are not modelled: register 0x01 holds the mode the driver
  last commanded. \<open>bus\<close> records every pin write and SPI byte the driver issues.
\<close>

type_synonym byte = "8 word"

datatype DigitalPin = P1 | P8 | P13 | P14 | P15 | P16

datatype io = PinWrite DigitalPin int | Spi byte

datatype phase = Deselected | AwaitAddr | Access bool nat

record hw =
  phase :: phase
  regs :: "nat \<Rightarrow> byte"
  fifo :: "nat \<Rightarrow> byte"
  por :: "nat \<Rightarrow> byte"
  bus :: "io list"

definition g_nss :: DigitalPin where "g_nss = P16"
definition g_rst :: DigitalPin where "g_rst = P8"
definition g_dio0 :: DigitalPin where "g_dio0 = P1"

definition next_addr :: "nat \<Rightarrow> nat" where
  "next_addr a = (if a = 0 then 0 else (a + 1) mod 128)"

definition chip_read :: "nat \<Rightarrow> hw \<Rightarrow> byte \<times> hw" where
  "chip_read a h =
     (if a = 0
      then (fifo h (unat (regs h 0x0D)), h\<lparr>regs := (regs h)(0x0D := regs h 0x0D + 1)\<rparr>)
      else (regs h a, h))"

definition chip_write :: "nat \<Rightarrow> byte \<Rightarrow> hw \<Rightarrow> hw" where
  "chip_write a b h =
     (if a = 0
      then h\<lparr>fifo := (fifo h)(unat (regs h 0x0D) := b),
             regs := (regs h)(0x0D := regs h 0x0D + 1)\<rparr>
      else if a = 0x12
      then h\<lparr>regs := (regs h)(0x12 := regs h 0x12 AND NOT b)\<rparr>
      else h\<lparr>regs := (regs h)(a := b)\<rparr>)"

definition hw_pin :: "DigitalPin \<Rightarrow> int \<Rightarrow> hw \<Rightarrow> hw" where
  "hw_pin p v h =
     (let h1 = h\<lparr>bus := bus h @ [PinWrite p v]\<rparr>
      in if p = g_nss then h1\<lparr>phase := (if v = 0 then AwaitAddr else Deselected)\<rparr>
         else if p = g_rst \<and> v = 0 then h1\<lparr>regs := por h1\<rparr>
         else h1)"

definition hw_spi :: "byte \<Rightarrow> hw \<Rightarrow> byte \<times> hw" where
  "hw_spi b h =
     (let h1 = h\<lparr>bus := bus h @ [Spi b]\<rparr>
      in case phase h1 of
           Deselected \<Rightarrow> (0, h1)
         | AwaitAddr \<Rightarrow> (0, h1\<lparr>phase := Access (bit b 7) (unat (b AND 0x7F))\<rparr>)
         | Access w a \<Rightarrow>
             (if w then (0, (chip_write a b h1)\<lparr>phase := Access w (next_addr a)\<rparr>)
              else (let (r, h2) = chip_read a h1
                    in (r, h2\<lparr>phase := Access w (next_addr a)\<rparr>))))"

subsection \<open>Driver state\<close>

text \<open>
  The module variables \<open>_inited\<close>, \<open>_rxHandler\<close>, \<open>_lastRssi\<close>, \<open>_lastSnrRaw\<close>, \<open>_sf\<close>
  and \<open>_bwCode\<close> (prefixed \<open>g\<close> here, as an identifier cannot start with an
  underscore), and what the runtime holds for the driver: whether the pulse handler and
  the event handler of DIO0 are registered, the handlers registered with \<open>onSent\<close>,
  the events raised with \<open>control.raiseEvent\<close>, and the receive-handler calls
  scheduled with \<open>control.runInBackground\<close>. Handlers are named by a number.
\<close>

record sys =
  hw :: hw
  g_inited :: bool
  g_rxHandler :: "nat option"
  g_lastRssi :: int
  g_lastSnrRaw :: int
  g_sf :: int
  g_bwCode :: int
  pulse_hooked :: bool
  event_hooked :: bool
  sent_handlers :: "nat list"
  raised :: "(int \<times> int) list"
  background :: "(nat \<times> string) list"

subsection \<open>Runtime primitives (pins, control, basic)\<close>

definition pins_digitalWritePin :: "DigitalPin \<Rightarrow> int \<Rightarrow> sys \<Rightarrow> sys" where
  "pins_digitalWritePin p v s = s\<lparr>hw := hw_pin p v (hw s)\<rparr>"

text \<open>\<open>pins.spiWrite\<close> clocks out the low 8 bits of its argument and returns the byte
  clocked in.\<close>

definition pins_spiWrite :: "int \<Rightarrow> sys \<Rightarrow> int \<times> sys" where
  "pins_spiWrite v s =
     (let (r, h) = hw_spi (word_of_int v) (hw s) in (uint r, s\<lparr>hw := h\<rparr>))"

text \<open>Time is not modelled: a pause changes nothing. The SPI pin, frequency and
  format settings and the pull of the DIO0 pin have no counterpart in the chip model.\<close>

definition basic_pause :: "int \<Rightarrow> sys \<Rightarrow> sys" where
  "basic_pause ms s = s"

definition pins_spiPins :: "DigitalPin \<Rightarrow> DigitalPin \<Rightarrow> DigitalPin \<Rightarrow> sys \<Rightarrow> sys" where
  "pins_spiPins mosi miso sck s = s"

definition pins_spiFrequency :: "int \<Rightarrow> sys \<Rightarrow> sys" where
  "pins_spiFrequency hz s = s"

definition pins_spiFormat :: "int \<Rightarrow> int \<Rightarrow> sys \<Rightarrow> sys" where
  "pins_spiFormat bits mode s = s"

definition pins_setPull_down :: "DigitalPin \<Rightarrow> sys \<Rightarrow> sys" where
  "pins_setPull_down p s = s"

definition control_raiseEvent :: "int \<Rightarrow> int \<Rightarrow> sys \<Rightarrow> sys" where
  "control_raiseEvent src v s = s\<lparr>raised := raised s @ [(src, v)]\<rparr>"

definition control_runInBackground :: "nat \<Rightarrow> string \<Rightarrow> sys \<Rightarrow> sys" where
  "control_runInBackground handler msg s = s\<lparr>background := background s @ [(handler, msg)]\<rparr>"

definition control_createBufferFromUTF8 :: "string \<Rightarrow> byte list" where
  "control_createBufferFromUTF8 str = map (\<lambda>c. of_char c) str"

definition buffer_toString :: "byte list \<Rightarrow> string" where
  "buffer_toString buf = map (\<lambda>b. char_of (unat b)) buf"

text \<open>Reading a TypeScript array outside its bounds gives \<open>undefined\<close>.\<close>

definition array_get :: "'a list \<Rightarrow> int \<Rightarrow> 'a option" where
  "array_get xs i = (if 0 \<le> i \<and> i < int (length xs) then Some (xs ! nat i) else None)"

subsection \<open>Register transport\<close>

definition csSelect :: "sys \<Rightarrow> sys" where
  "csSelect s = pins_digitalWritePin g_nss 0 s"

definition csDeselect :: "sys \<Rightarrow> sys" where
  "csDeselect s = pins_digitalWritePin g_nss 1 s"

definition spiInit :: "sys \<Rightarrow> sys" where
  "spiInit s =
     (let s1 = pins_spiPins P15 P14 P13 s;
          s2 = pins_spiFrequency 1000000 s1;
          s3 = pins_spiFormat 8 0 s2
      in pins_digitalWritePin g_nss 1 s3)"

definition readReg :: "int \<Rightarrow> sys \<Rightarrow> int \<times> sys" where
  "readReg addr s =
     (let s1 = csSelect s;
          (u, s2) = pins_spiWrite (addr AND 0x7F) s1;
          (v, s3) = pins_spiWrite 0x00 s2;
          s4 = csDeselect s3
      in (v, s4))"

definition writeReg :: "int \<Rightarrow> int \<Rightarrow> sys \<Rightarrow> sys" where
  "writeReg addr val s =
     (let s1 = csSelect s;
          (u, s2) = pins_spiWrite (addr OR 0x80) s1;
          (w, s3) = pins_spiWrite val s2
      in csDeselect s3)"

text \<open>The loop \<open>for (i = 0; i < buf.length; i++) pins.spiWrite(buf[i])\<close>.\<close>

fun burstWrite_loop :: "byte list \<Rightarrow> sys \<Rightarrow> sys" where
  "burstWrite_loop [] s = s"
| "burstWrite_loop (b # bs) s = burstWrite_loop bs (snd (pins_spiWrite (uint b) s))"

definition burstWrite :: "int \<Rightarrow> byte list \<Rightarrow> sys \<Rightarrow> sys" where
  "burstWrite addr buf s =
     (let s1 = csSelect s;
          (u, s2) = pins_spiWrite (addr OR 0x80) s1;
          s3 = burstWrite_loop buf s2
      in csDeselect s3)"

text \<open>The loop \<open>for (i = 0; i < len; i++) out[i] = pins.spiWrite(0x00)\<close>.\<close>

fun burstRead_loop :: "nat \<Rightarrow> sys \<Rightarrow> byte list \<times> sys" where
  "burstRead_loop 0 s = ([], s)"
| "burstRead_loop (Suc n) s =
     (let (v, s1) = pins_spiWrite 0x00 s;
          (out, s2) = burstRead_loop n s1
      in (word_of_int v # out, s2))"

definition burstRead :: "int \<Rightarrow> int \<Rightarrow> sys \<Rightarrow> byte list \<times> sys" where
  "burstRead addr len s =
     (let s1 = csSelect s;
          (u, s2) = pins_spiWrite (addr AND 0x7F) s1;
          (out, s3) = burstRead_loop (nat len) s2
      in (out, csDeselect s3))"

definition resetChip :: "sys \<Rightarrow> sys" where
  "resetChip s =
     (let s1 = pins_digitalWritePin g_rst 0 s;
          s2 = basic_pause 2 s1;
          s3 = pins_digitalWritePin g_rst 1 s2
      in basic_pause 10 s3)"

definition setMode :: "int \<Rightarrow> sys \<Rightarrow> sys" where
  "setMode mode s = writeReg REG_OP_MODE (MODE_LONG_RANGE OR mode) s"

subsection \<open>Frequency and modem configuration\<close>

text \<open>
  \<open>Math.floor(freqHz * 524288 / 32000000)\<close> is a division of numbers followed by
  \<open>floor\<close>; it is taken over the rationals.
\<close>

definition setFrequencyMHz :: "int \<Rightarrow> sys \<Rightarrow> sys" where
  "setFrequencyMHz mhz s =
     (let freqHz = mhz * 1000000;
          frf = \<lfloor>(of_int (freqHz * 524288) :: rat) / 32000000\<rfloor>;
          s1 = writeReg REG_FRF_MSB (js_sar frf 16 AND 0xFF) s;
          s2 = writeReg REG_FRF_MID (js_sar frf 8 AND 0xFF) s1
      in writeReg REG_FRF_LSB (frf AND 0xFF) s2)"

text \<open>
  In \<open>needLdro\<close> an out-of-range bandwidth code makes the right-hand side
  \<open>16 * undefined\<close>, which is NaN, and a comparison with NaN is false.
\<close>

definition needLdro :: "sys \<Rightarrow> bool" where
  "needLdro s =
     (case array_get BW_KHZ_X100 (g_bwCode s) of
        None \<Rightarrow> False
      | Some khz100 \<Rightarrow> js_shl 1 (g_sf s) * 100 > 16 * khz100)"

definition applyLdro :: "sys \<Rightarrow> sys" where
  "applyLdro s =
     (let (v, s1) = readReg REG_MODEM_CONFIG_3 s
      in writeReg REG_MODEM_CONFIG_3 (if needLdro s then v OR 0x08 else v AND 0xF7) s1)"

definition configRadioDefaults :: "Band \<Rightarrow> sys \<Rightarrow> sys" where
  "configRadioDefaults band s =
     (let s1 = writeReg REG_FIFO_TX_BASE_ADDR 0x00 s;
          s2 = writeReg REG_FIFO_RX_BASE_ADDR 0x00 s1;
          s3 = writeReg REG_FIFO_ADDR_PTR 0x00 s2;
          s4 = writeReg REG_PREAMBLE_MSB 0x00 s3;
          s5 = writeReg REG_PREAMBLE_LSB 0x08 s4;
          s6 = writeReg REG_SYNC_WORD 0x34 s5;
          s7 = (if band = EU868 then setFrequencyMHz 868 s6 else setFrequencyMHz 915 s6);
          s8 = writeReg REG_MODEM_CONFIG_1 0x72 s7;
          s9 = writeReg REG_MODEM_CONFIG_2 0x74 s8;
          s10 = writeReg REG_MODEM_CONFIG_3 0x04 s9;
          (lna, s11) = readReg REG_LNA s10;
          s12 = writeReg REG_LNA (lna OR 0x03) s11;
          s13 = writeReg REG_PA_CONFIG (0x80 OR 0x0F) s12;
          s14 = writeReg REG_PA_DAC 0x84 s13
      in writeReg REG_DIO_MAPPING_1 0x00 s14)"

definition setDio0Mapping :: "int \<Rightarrow> sys \<Rightarrow> sys" where
  "setDio0Mapping mapping s =
     (let (v, s1) = readReg REG_DIO_MAPPING_1 s;
          v' = (v AND 0x3F) OR js_shl (mapping AND 0x03) 6
      in writeReg REG_DIO_MAPPING_1 v' s1)"

subsection \<open>The deferred interrupt handler\<close>

text \<open>
  \<open>setupDio0Interrupt\<close> registers two closures: the pulse handler of the DIO0 pin, which
  only raises the event (LORA_EVENT_ID, INT_DIO0), and the handler of that event,
  \<open>dio0_handler\<close> below. Its body is split at the source's two comments: \<open>dio0_receive\<close>
  is the FIFO read sequence of the RxDone path after the CRC check, \<open>dio0_txDone\<close> the
  TxDone path. The \<open>return\<close> of the CRC branch is the branch that does not go on to
  \<open>dio0_txDone\<close>.
\<close>

definition setupDio0Interrupt :: "sys \<Rightarrow> sys" where
  "setupDio0Interrupt s =
     (let s1 = pins_setPull_down g_dio0 s
      in s1\<lparr>pulse_hooked := True, event_hooked := True\<rparr>)"

definition dio0_receive :: "sys \<Rightarrow> sys" where
  "dio0_receive s =
     (let (currentAddr, s1) = readReg REG_FIFO_RX_CURRENT_ADDR s;
          s2 = writeReg REG_FIFO_ADDR_PTR currentAddr s1;
          (len, s3) = readReg REG_RX_NB_BYTES s2;
          (pkt, s4) = burstRead REG_FIFO len s3;
          (rssi, s5) = readReg REG_PKT_RSSI_VALUE s4;
          s6 = s5\<lparr>g_lastRssi := rssi - 157\<rparr>;
          (snr, s7) = readReg REG_PKT_SNR_VALUE s6;
          s8 = s7\<lparr>g_lastSnrRaw := snr\<rparr>;
          s9 = writeReg REG_IRQ_FLAGS IRQ_CLEAR_ALL s8;
          msg = buffer_toString pkt
      in case g_rxHandler s9 of
           None \<Rightarrow> s9
         | Some handler \<Rightarrow> control_runInBackground handler msg s9)"

definition dio0_txDone :: "int \<Rightarrow> sys \<Rightarrow> sys" where
  "dio0_txDone flags s =
     (if (flags AND IRQ_TX_DONE) \<noteq> 0
      then (let s1 = writeReg REG_IRQ_FLAGS IRQ_CLEAR_ALL s;
                s2 = setDio0Mapping 0 s1;
                s3 = setMode MODE_RX_CONTINUOUS s2
            in control_raiseEvent LORA_EVENT_ID APP_TX s3)
      else s)"

definition dio0_handler :: "sys \<Rightarrow> sys" where
  "dio0_handler s =
     (let (flags, s1) = readReg REG_IRQ_FLAGS s
      in if (flags AND IRQ_RX_DONE) \<noteq> 0
         then (if (flags AND IRQ_PAYLOAD_CRC_ERROR) \<noteq> 0
               then writeReg REG_IRQ_FLAGS IRQ_CLEAR_ALL s1
               else dio0_txDone flags (dio0_receive s1))
         else dio0_txDone flags s1)"

subsection \<open>Public operations\<close>

definition init :: "Band \<Rightarrow> sys \<Rightarrow> sys" where
  "init band s =
     (let s1 = spiInit s;
          s2 = resetChip s1;
          (version, s3) = readReg REG_VERSION s2
      in if version \<noteq> 0x12 then s3\<lparr>g_inited := False\<rparr>
         else (let s4 = setMode MODE_SLEEP s3;
                   s5 = basic_pause 10 s4;
                   s6 = setMode MODE_STDBY s5;
                   s7 = basic_pause 10 s6;
                   s8 = configRadioDefaults band s7;
                   s9 = writeReg REG_IRQ_FLAGS IRQ_CLEAR_ALL s8;
                   s10 = setMode MODE_RX_CONTINUOUS s9;
                   s11 = setupDio0Interrupt s10;
                   s12 = setDio0Mapping 0 s11;
                   s13 = writeReg REG_IRQ_FLAGS IRQ_CLEAR_ALL s12;
                   s14 = setMode MODE_RX_CONTINUOUS s13
               in s14\<lparr>g_inited := True\<rparr>))"

definition sendBuffer :: "byte list \<Rightarrow> sys \<Rightarrow> sys" where
  "sendBuffer buf s =
     (if \<not> g_inited s then s
      else (let s1 = setMode MODE_STDBY s;
                s2 = writeReg REG_IRQ_FLAGS IRQ_CLEAR_ALL s1;
                s3 = setDio0Mapping 1 s2;
                s4 = writeReg REG_FIFO_ADDR_PTR 0x00 s3;
                s5 = burstWrite REG_FIFO buf s4;
                s6 = writeReg REG_PAYLOAD_LENGTH (int (length buf)) s5
            in setMode MODE_TX s6))"

definition sendString :: "string \<Rightarrow> sys \<Rightarrow> sys" where
  "sendString str s =
     (if \<not> g_inited s then s
      else sendBuffer (control_createBufferFromUTF8 str) s)"

definition onReceivedString :: "nat \<Rightarrow> sys \<Rightarrow> sys" where
  "onReceivedString handler s = s\<lparr>g_rxHandler := Some handler\<rparr>"

definition onSent :: "nat \<Rightarrow> sys \<Rightarrow> sys" where
  "onSent handler s = s\<lparr>sent_handlers := sent_handlers s @ [handler]\<rparr>"

definition receivedSignalStrength :: "sys \<Rightarrow> int \<times> sys" where
  "receivedSignalStrength s = (g_lastRssi s, s)"

definition receivedSnr :: "sys \<Rightarrow> rat \<times> sys" where
  "receivedSnr s =
     (let raw = (if g_lastSnrRaw s > 127 then g_lastSnrRaw s - 256 else g_lastSnrRaw s)
      in (of_int raw / 4, s))"

definition channelRssi :: "sys \<Rightarrow> int \<times> sys" where
  "channelRssi s =
     (if \<not> g_inited s then (0, s)
      else (let (v, s1) = readReg REG_RSSI_VALUE s in (v - 157, s1)))"

definition setTxPower :: "int \<Rightarrow> sys \<Rightarrow> sys" where
  "setTxPower dBm s =
     (if \<not> g_inited s then s
      else if dBm = 20
      then (let s1 = writeReg REG_PA_CONFIG (0x80 OR 0x0F) s
            in writeReg REG_PA_DAC 0x87 s1)
      else (let power = max 0 (min 15 (dBm - 2));
                s1 = writeReg REG_PA_CONFIG (0x80 OR power) s
            in writeReg REG_PA_DAC 0x84 s1))"

definition setSpreadingFactor :: "int \<Rightarrow> sys \<Rightarrow> sys" where
  "setSpreadingFactor sf s =
     (if \<not> g_inited s then s
      else (let s1 = s\<lparr>g_sf := sf\<rparr>;
                (current, s2) = readReg REG_MODEM_CONFIG_2 s1;
                s3 = writeReg REG_MODEM_CONFIG_2 ((current AND 0x0F) OR js_shl sf 4) s2
            in applyLdro s3))"

definition setBandwidth :: "int \<Rightarrow> sys \<Rightarrow> sys" where
  "setBandwidth bw s =
     (if \<not> g_inited s then s
      else (let s1 = s\<lparr>g_bwCode := bw\<rparr>;
                (current, s2) = readReg REG_MODEM_CONFIG_1 s1;
                s3 = writeReg REG_MODEM_CONFIG_1 ((current AND 0x0F) OR js_shl bw 4) s2
            in applyLdro s3))"

definition setCodingRate :: "int \<Rightarrow> sys \<Rightarrow> sys" where
  "setCodingRate cr s =
     (if \<not> g_inited s then s
      else (let (current, s1) = readReg REG_MODEM_CONFIG_1 s
            in writeReg REG_MODEM_CONFIG_1 ((current AND 0xF1) OR js_shl cr 1) s1))"

definition setSyncWord :: "int \<Rightarrow> sys \<Rightarrow> sys" where
  "setSyncWord word s =
     (if \<not> g_inited s then s
      else writeReg REG_SYNC_WORD word s)"

subsection \<open>Runs of the driver\<close>

text \<open>
  What can happen to the driver: the program calls a public operation, the DIO0 pin
  pulses, or the chip updates one of its status registers (interrupt flags 0x12, FIFO
  receive address 0x10, received byte count 0x13, packet SNR 0x19, packet RSSI 0x1A,
  channel RSSI 0x1B) or a byte of its packet buffer. Section 5 of the specification
  has each operation and each deferred handler run to completion before the next one
  starts, so a step is one whole operation. A pulse raises the DIO0 event if the pulse
  handler is registered, and the event runs \<open>dio0_handler\<close> if that is registered.
\<close>

datatype event =
    Init Band
  | SendString string
  | SendBuffer "byte list"
  | OnReceivedString nat
  | OnSent nat
  | ReceivedSignalStrength
  | ReceivedSnr
  | ChannelRssi
  | SetTxPower int
  | SetSpreadingFactor int
  | SetBandwidth int
  | SetCodingRate int
  | SetSyncWord int
  | Dio0Pulse
  | ChipStatus nat byte
  | ChipFifo nat byte

definition status_regs :: "nat list" where
  "status_regs = [0x10, 0x12, 0x13, 0x19, 0x1A, 0x1B]"

definition chip_status :: "nat \<Rightarrow> byte \<Rightarrow> sys \<Rightarrow> sys" where
  "chip_status a v s =
     (if a \<in> set status_regs then s\<lparr>hw := (hw s)\<lparr>regs := (regs (hw s))(a := v)\<rparr>\<rparr> else s)"

definition chip_fifo :: "nat \<Rightarrow> byte \<Rightarrow> sys \<Rightarrow> sys" where
  "chip_fifo i v s = s\<lparr>hw := (hw s)\<lparr>fifo := (fifo (hw s))(i mod 256 := v)\<rparr>\<rparr>"

definition dio0_pulse :: "sys \<Rightarrow> sys" where
  "dio0_pulse s =
     (if pulse_hooked s
      then (let s1 = control_raiseEvent LORA_EVENT_ID INT_DIO0 s
            in if event_hooked s1 then dio0_handler s1 else s1)
      else s)"

fun step :: "event \<Rightarrow> sys \<Rightarrow> sys" where
  "step (Init band) s = init band s"
| "step (SendString str) s = sendString str s"
| "step (SendBuffer buf) s = sendBuffer buf s"
| "step (OnReceivedString handler) s = onReceivedString handler s"
| "step (OnSent handler) s = onSent handler s"
| "step ReceivedSignalStrength s = snd (receivedSignalStrength s)"
| "step ReceivedSnr s = snd (receivedSnr s)"
| "step ChannelRssi s = snd (channelRssi s)"
| "step (SetTxPower dBm) s = setTxPower dBm s"
| "step (SetSpreadingFactor sf) s = setSpreadingFactor sf s"
| "step (SetBandwidth bw) s = setBandwidth bw s"
| "step (SetCodingRate cr) s = setCodingRate cr s"
| "step (SetSyncWord word) s = setSyncWord word s"
| "step Dio0Pulse s = dio0_pulse s"
| "step (ChipStatus a v) s = chip_status a v s"
| "step (ChipFifo i v) s = chip_fifo i v s"

definition run :: "event list \<Rightarrow> sys \<Rightarrow> sys" where
  "run es s = fold step es s"

text \<open>
  The state when the program starts: the module variables at their initialisers, no
  handler registered, the chip holding its power-on register values \<open>p\<close> and packet
  buffer \<open>f\<close>.
\<close>

definition boot :: "(nat \<Rightarrow> byte) \<Rightarrow> (nat \<Rightarrow> byte) \<Rightarrow> sys" where
  "boot p f =
     \<lparr>hw = \<lparr>phase = Deselected, regs = p, fifo = f, por = p, bus = []\<rparr>,
      g_inited = False, g_rxHandler = None, g_lastRssi = 0, g_lastSnrRaw = 0,
      g_sf = 7, g_bwCode = 7, pulse_hooked = False, event_hooked = False,
      sent_handlers = [], raised = [], background = []\<rparr>"

subsection \<open>Vocabulary of the specification\<close>

text \<open>The content of a chip register, by its driver constant.\<close>

definition reg :: "int \<Rightarrow> sys \<Rightarrow> byte" where
  "reg a s = regs (hw s) (nat a)"

text \<open>The bus traffic of one \<open>readReg\<close> and of one \<open>writeReg\<close>.\<close>

definition rd_frame :: "int \<Rightarrow> io list" where
  "rd_frame a = [PinWrite g_nss 0, Spi (word_of_int (a AND 0x7F)), Spi 0, PinWrite g_nss 1]"

definition wr_frame :: "int \<Rightarrow> int \<Rightarrow> io list" where
  "wr_frame a v =
     [PinWrite g_nss 0, Spi (word_of_int (a OR 0x80)), Spi (word_of_int v), PinWrite g_nss 1]"

text \<open>
  The code has no variable for the RadioState and the InterruptRouting of the
  specification's data model. They are read off the state: the radio state from
  \<open>_inited\<close> and the mode last written to the operating-mode register, the routing
  from bits 7..6 of the DIO mapping register (00 receive complete, 01 transmit
  complete).
\<close>

datatype RadioState = Uninitialized | Sleep | Standby | Receiving | Transmitting

datatype InterruptRouting = RxComplete | TxComplete

definition radioState :: "sys \<Rightarrow> RadioState option" where
  "radioState s =
     (if \<not> g_inited s then Some Uninitialized
      else if reg REG_OP_MODE s = 0x80 then Some Sleep
      else if reg REG_OP_MODE s = 0x81 then Some Standby
      else if reg REG_OP_MODE s = 0x85 then Some Receiving
      else if reg REG_OP_MODE s = 0x83 then Some Transmitting
      else None)"

definition interruptRouting :: "sys \<Rightarrow> InterruptRouting option" where
  "interruptRouting s =
     (if drop_bit 6 (reg REG_DIO_MAPPING_1 s) = 0 then Some RxComplete
      else if drop_bit 6 (reg REG_DIO_MAPPING_1 s) = 1 then Some TxComplete
      else None)"

text \<open>
  A step stores a received packet when it is a DIO0 pulse that reaches the handler
  while the status register shows receive-complete without a CRC error. A run is
  \<open>quiet\<close> when none of its steps does.
\<close>

definition stores_packet :: "event \<Rightarrow> sys \<Rightarrow> bool" where
  "stores_packet e s \<longleftrightarrow>
     e = Dio0Pulse \<and> pulse_hooked s \<and> event_hooked s \<and>
     bit (reg REG_IRQ_FLAGS s) 6 \<and> \<not> bit (reg REG_IRQ_FLAGS s) 5"

fun quiet :: "event list \<Rightarrow> sys \<Rightarrow> bool" where
  "quiet [] s = True"
| "quiet (e # es) s = (\<not> stores_packet e s \<and> quiet es (step e s))"

text \<open>What the two FIFO bursts store and fetch, in closed form.\<close>

fun fifo_store :: "byte list \<Rightarrow> byte \<Rightarrow> (nat \<Rightarrow> byte) \<Rightarrow> (nat \<Rightarrow> byte)" where
  "fifo_store [] p f = f"
| "fifo_store (b # bs) p f = fifo_store bs (p + 1) (f(unat p := b))"

fun fifo_fetch :: "nat \<Rightarrow> byte \<Rightarrow> (nat \<Rightarrow> byte) \<Rightarrow> byte list" where
  "fifo_fetch 0 p f = []"
| "fifo_fetch (Suc n) p f = f (unat p) # fifo_fetch n (p + 1) f"

text \<open>
  What one register transaction leaves behind in the hardware: \<open>after_read\<close> and
  \<open>after_write\<close> for \<open>readReg\<close> and \<open>writeReg\<close> of a register other than the FIFO
  window, \<open>after_burst_write\<close> and \<open>after_burst_read\<close> for the two bursts on the FIFO
  window. They are proved equal to the code below and used to state, transaction by
  transaction, what an operation does.
\<close>

definition after_read :: "int \<Rightarrow> hw \<Rightarrow> hw" where
  "after_read a h = h\<lparr>phase := Deselected, bus := bus h @ rd_frame a\<rparr>"

definition after_write :: "int \<Rightarrow> int \<Rightarrow> hw \<Rightarrow> hw" where
  "after_write a v h =
     h\<lparr>phase := Deselected,
       regs := (regs h)(nat a := (if a = 0x12 then regs h 0x12 AND NOT (word_of_int v)
                                 else word_of_int v)),
       bus := bus h @ wr_frame a v\<rparr>"

definition after_burst_write :: "byte list \<Rightarrow> hw \<Rightarrow> hw" where
  "after_burst_write buf h =
     h\<lparr>phase := Deselected,
       regs := (regs h)(0x0D := regs h 0x0D + of_nat (length buf)),
       fifo := fifo_store buf (regs h 0x0D) (fifo h),
       bus := bus h @ [PinWrite g_nss 0, Spi 0x80] @ map Spi buf @ [PinWrite g_nss 1]\<rparr>"

definition after_burst_read :: "nat \<Rightarrow> hw \<Rightarrow> hw" where
  "after_burst_read n h =
     h\<lparr>phase := Deselected,
       regs := (regs h)(0x0D := regs h 0x0D + of_nat n),
       bus := bus h @ [PinWrite g_nss 0, Spi 0x00] @ replicate n (Spi 0x00)
                @ [PinWrite g_nss 1]\<rparr>"

text \<open>
  The transactions of \<open>configRadioDefaults\<close> and of a successful \<open>init\<close>, in the order
  the code issues them (innermost first).
\<close>

definition config_hw :: "Band \<Rightarrow> hw \<Rightarrow> hw" where
  "config_hw band h =
     after_write REG_DIO_MAPPING_1 0x00
      (after_write REG_PA_DAC 0x84
        (after_write REG_PA_CONFIG 0x8F
          (after_write REG_LNA (uint (regs h 0x0C) OR 0x03)
            (after_read REG_LNA
              (after_write REG_MODEM_CONFIG_3 0x04
                (after_write REG_MODEM_CONFIG_2 0x74
                  (after_write REG_MODEM_CONFIG_1 0x72
                    (after_write REG_FRF_LSB 0x00
                      (after_write REG_FRF_MID (if band = EU868 then 0x00 else 0xC0)
                        (after_write REG_FRF_MSB (if band = EU868 then 0xD9 else 0xE4)
                          (after_write REG_SYNC_WORD 0x34
                            (after_write REG_PREAMBLE_LSB 0x08
                              (after_write REG_PREAMBLE_MSB 0x00
                                (after_write REG_FIFO_ADDR_PTR 0x00
                                  (after_write REG_FIFO_RX_BASE_ADDR 0x00
                                    (after_write REG_FIFO_TX_BASE_ADDR 0x00 h))))))))))))))))"

definition init_hw :: "Band \<Rightarrow> hw \<Rightarrow> hw" where
  "init_hw band h =
     after_write REG_OP_MODE 0x85
      (after_write REG_IRQ_FLAGS 0xFF
        (after_write REG_DIO_MAPPING_1 0x00
          (after_read REG_DIO_MAPPING_1
            (after_write REG_OP_MODE 0x85
              (after_write REG_IRQ_FLAGS 0xFF
                (config_hw band
                  (after_write REG_OP_MODE 0x81
                    (after_write REG_OP_MODE 0x80
                      (after_read REG_VERSION
                        (hw_pin g_rst 1 (hw_pin g_rst 0 (hw_pin g_nss 1 h))))))))))))"

text \<open>
  The output power in dBm that the power-amplifier registers stand for, in the driver's
  own encoding: 20 on the high-power path (PA_DAC 0x87), otherwise the power field
  (low nibble of PA_CONFIG) plus 2.
\<close>

definition power_setting :: "sys \<Rightarrow> int" where
  "power_setting s =
     (if reg REG_PA_DAC s = 0x87 then 20 else uint (reg REG_PA_CONFIG s AND 0x0F) + 2)"

text \<open>
  A concrete chip for evaluating the driver: the identity register 0x42 reads 0x12,
  every other register and the packet buffer are zero at power-on. \<open>s_boot\<close> is the
  program start on that chip, \<open>s_ready\<close> the state after \<open>init(Band.EU868)\<close>.
\<close>

definition test_por :: "nat \<Rightarrow> byte" where
  "test_por = (\<lambda>a. 0)(0x42 := 0x12)"

definition test_fifo :: "nat \<Rightarrow> byte" where
  "test_fifo = (\<lambda>a. 0)"

definition s_boot :: sys where
  "s_boot = boot test_por test_fifo"

definition s_ready :: sys where
  "s_ready = init EU868 s_boot"

text \<open>\<open>s_failed\<close>: the state after \<open>init\<close> on a chip whose identity register reads 0.\<close>

definition s_failed :: sys where
  "s_failed = init EU868 (boot (\<lambda>a. 0) test_fifo)"

text \<open>\<open>s_crc\<close>: a receive handler is registered and the chip reports receive-complete
  together with a payload CRC error.\<close>

definition s_crc :: sys where
  "s_crc = run [OnReceivedString 1, ChipStatus 0x12 0x60] s_ready"

text \<open>
  Claim C2 in the vocabulary above: the routing is transmit-complete only in the
  Transmitting state, and in the Receiving state it is receive-complete.
  \<open>routing_inv\<close> is the inductive form used to prove it: the power-on value of the
  routing is not transmit-complete, a transmit-complete routing comes with \<open>_inited\<close>
  and the transmit mode, and once initialised the routing is one of the two.
\<close>

definition routing_ok :: "sys \<Rightarrow> bool" where
  "routing_ok s \<longleftrightarrow>
     (interruptRouting s = Some TxComplete \<longrightarrow> radioState s = Some Transmitting) \<and>
     (radioState s = Some Receiving \<longrightarrow> interruptRouting s = Some RxComplete)"

definition routing_inv :: "sys \<Rightarrow> bool" where
  "routing_inv s \<longleftrightarrow>
     drop_bit 6 (por (hw s) 0x40) \<noteq> 1 \<and>
     (drop_bit 6 (reg REG_DIO_MAPPING_1 s) = 1 \<longrightarrow> g_inited s \<and> reg REG_OP_MODE s = 0x83) \<and>
     (g_inited s \<longrightarrow> drop_bit 6 (reg REG_DIO_MAPPING_1 s) = 0 \<or>
                     drop_bit 6 (reg REG_DIO_MAPPING_1 s) = 1)"

text \<open>Event sequences on the test chip, for evaluating runs.\<close>

definition es_quiet :: "event list" where
  "es_quiet = [OnReceivedString 1, Init EU868, ChipStatus 0x19 0xFF, ChipStatus 0x12 0x60,
               Dio0Pulse, ReceivedSnr]"

definition es_packet :: "event list" where
  "es_packet = [OnReceivedString 1, Init EU868, ChipStatus 0x19 0xFF, ChipStatus 0x1A 0x64,
                ChipStatus 0x12 0x40, Dio0Pulse]"

definition es_failed :: "event list" where
  "es_failed = [Init EU868, SetSyncWord 0x12, ChipStatus 0x12 0x40, Dio0Pulse,
                ReceivedSignalStrength]"

definition es_send :: "event list" where
  "es_send = [Init EU868, SendBuffer [1, 2, 3]]"

definition es_sent :: "event list" where
  "es_sent = [Init EU868, SendBuffer [1, 2, 3], ChipStatus 0x12 0x08, Dio0Pulse]"

section \<open>Register-level behaviour of the transport\<close>

lemmas reg_defs =
  REG_FIFO_def REG_OP_MODE_def REG_FRF_MSB_def REG_FRF_MID_def REG_FRF_LSB_def
  REG_PA_CONFIG_def REG_LNA_def REG_FIFO_ADDR_PTR_def REG_FIFO_TX_BASE_ADDR_def
  REG_FIFO_RX_BASE_ADDR_def REG_FIFO_RX_CURRENT_ADDR_def REG_IRQ_FLAGS_def
  REG_RX_NB_BYTES_def REG_PKT_SNR_VALUE_def REG_PKT_RSSI_VALUE_def REG_RSSI_VALUE_def
  REG_MODEM_CONFIG_1_def REG_MODEM_CONFIG_2_def REG_PREAMBLE_MSB_def
  REG_PREAMBLE_LSB_def REG_PAYLOAD_LENGTH_def REG_MODEM_CONFIG_3_def REG_SYNC_WORD_def
  REG_DIO_MAPPING_1_def REG_VERSION_def REG_PA_DAC_def

lemmas mode_defs =
  MODE_LONG_RANGE_def MODE_SLEEP_def MODE_STDBY_def MODE_TX_def MODE_RX_CONTINUOUS_def

lemmas irq_defs =
  IRQ_RX_DONE_def IRQ_TX_DONE_def IRQ_PAYLOAD_CRC_ERROR_def IRQ_CLEAR_ALL_def

lemmas pin_defs =
  csSelect_def csDeselect_def pins_digitalWritePin_def pins_spiWrite_def hw_pin_def
  hw_spi_def g_nss_def g_rst_def

lemma and127: "0 \<le> a \<Longrightarrow> a < 128 \<Longrightarrow> a AND 0x7F = (a::int)"
proof -
  assume a: "0 \<le> a" "a < 128"
  have "take_bit 7 a = a" using a by (simp add: take_bit_int_eq_self)
  moreover have "(0x7F::int) = mask 7" by (simp add: mask_eq_exp_minus_1)
  ultimately show ?thesis by (simp add: take_bit_eq_mask)
qed

lemma bit_rd: "\<not> bit (word_of_int (a AND 0x7F) :: byte) 7"
  by (simp add: bit_word_of_int_iff bit_and_iff)

lemma bit_wr: "bit (word_of_int (a OR 0x80) :: byte) 7"
  by (simp add: bit_word_of_int_iff bit_or_iff)

lemma addr_rd:
  "0 \<le> a \<Longrightarrow> a < 128 \<Longrightarrow> unat ((word_of_int (a AND 0x7F) :: byte) AND 0x7F) = nat a"
proof -
  assume a: "0 \<le> a" "a < 128"
  have "(word_of_int (a AND 0x7F) :: byte) AND 0x7F = word_of_int ((a AND 0x7F) AND 0x7F)"
    using of_int_and_eq [of "a AND 0x7F" "0x7F", where ?'a = byte] by simp
  also have "\<dots> = word_of_int a" using a by (simp add: and127)
  finally show ?thesis using a by (simp add: unat_eq_nat_uint uint_word_of_int)
qed

lemma addr_wr:
  "0 \<le> a \<Longrightarrow> a < 128 \<Longrightarrow> unat ((word_of_int (a OR 0x80) :: byte) AND 0x7F) = nat a"
proof -
  assume a: "0 \<le> a" "a < 128"
  have "(a OR 0x80) AND 0x7F = (a AND 0x7F) OR (0x80 AND 0x7F)"
    by (simp add: bit.conj_disj_distrib2)
  then have e: "(a OR 0x80) AND 0x7F = a" using a by (simp add: and127)
  have "(word_of_int (a OR 0x80) :: byte) AND 0x7F = word_of_int ((a OR 0x80) AND 0x7F)"
    using of_int_and_eq [of "a OR 0x80" "0x7F", where ?'a = byte] by simp
  also have "\<dots> = word_of_int a" using e by simp
  finally show ?thesis using a by (simp add: unat_eq_nat_uint uint_word_of_int)
qed

text \<open>One \<open>readReg\<close> of a register other than the FIFO window returns the register
  and leaves only the bus record and the select state changed.\<close>

lemma readReg_eq:
  assumes "0 < a" "a < 128"
  shows "readReg a s = (uint (regs (hw s) (nat a)), s\<lparr>hw := after_read a (hw s)\<rparr>)"
  using assms
  by (simp add: readReg_def pin_defs chip_read_def Let_def rd_frame_def addr_rd bit_rd
      split_def after_read_def)

lemma writeReg_eq:
  assumes "0 < a" "a < 128"
  shows "writeReg a v s = s\<lparr>hw := after_write a v (hw s)\<rparr>"
  using assms
  by (simp add: writeReg_def pin_defs chip_write_def Let_def wr_frame_def addr_wr bit_wr
      split_def after_write_def)

lemmas io_eq = readReg_eq writeReg_eq

lemma after_read_simps [simp]:
  "phase (after_read a h) = Deselected"
  "regs (after_read a h) = regs h"
  "fifo (after_read a h) = fifo h"
  "por (after_read a h) = por h"
  "bus (after_read a h) = bus h @ rd_frame a"
  by (simp_all add: after_read_def)

lemma after_write_simps [simp]:
  "phase (after_write a v h) = Deselected"
  "fifo (after_write a v h) = fifo h"
  "por (after_write a v h) = por h"
  "bus (after_write a v h) = bus h @ wr_frame a v"
  by (simp_all add: after_write_def)

lemma regs_after_write [simp]:
  "regs (after_write a v h) x =
     (if x = nat a then (if a = 0x12 then regs h 0x12 AND NOT (word_of_int v) else word_of_int v)
      else regs h x)"
  by (simp add: after_write_def)

lemma after_burst_write_simps [simp]:
  "phase (after_burst_write buf h) = Deselected"
  "por (after_burst_write buf h) = por h"
  "regs (after_burst_write buf h) x =
     (if x = 0x0D then regs h 0x0D + of_nat (length buf) else regs h x)"
  "fifo (after_burst_write buf h) = fifo_store buf (regs h 0x0D) (fifo h)"
  "bus (after_burst_write buf h) =
     bus h @ [PinWrite g_nss 0, Spi 0x80] @ map Spi buf @ [PinWrite g_nss 1]"
  by (simp_all add: after_burst_write_def)

lemma after_burst_read_simps [simp]:
  "phase (after_burst_read n h) = Deselected"
  "por (after_burst_read n h) = por h"
  "regs (after_burst_read n h) x = (if x = 0x0D then regs h 0x0D + of_nat n else regs h x)"
  "fifo (after_burst_read n h) = fifo h"
  "bus (after_burst_read n h) =
     bus h @ [PinWrite g_nss 0, Spi 0x00] @ replicate n (Spi 0x00) @ [PinWrite g_nss 1]"
  by (simp_all add: after_burst_read_def)

lemma burstWrite_loop_sem:
  "phase (hw s) = Access True 0 \<Longrightarrow>
   burstWrite_loop buf s =
     s\<lparr>hw := (hw s)\<lparr>regs := (regs (hw s))(0x0D := regs (hw s) 0x0D + of_nat (length buf)),
                     fifo := fifo_store buf (regs (hw s) 0x0D) (fifo (hw s)),
                     bus := bus (hw s) @ map Spi buf\<rparr>\<rparr>"
proof (induction buf arbitrary: s)
  case Nil
  then show ?case by simp
next
  case (Cons b bs)
  let ?s1 = "snd (pins_spiWrite (uint b) s)"
  have s1: "?s1 = s\<lparr>hw := (hw s)\<lparr>regs := (regs (hw s))(0x0D := regs (hw s) 0x0D + 1),
                     fifo := (fifo (hw s))(unat (regs (hw s) 0x0D) := b),
                     bus := bus (hw s) @ [Spi b]\<rparr>\<rparr>"
    using Cons.prems
    by (simp add: pins_spiWrite_def hw_spi_def chip_write_def next_addr_def Let_def split_def)
  have ph: "phase (hw ?s1) = Access True 0" using Cons.prems by (simp add: s1)
  have step: "burstWrite_loop (b # bs) s = burstWrite_loop bs ?s1" by simp
  show ?case
    apply (subst step)
    apply (subst Cons.IH [OF ph])
    apply (simp add: s1 add.assoc)
    done
qed

lemma burstRead_loop_sem:
  "phase (hw s) = Access False 0 \<Longrightarrow>
   burstRead_loop n s =
     (fifo_fetch n (regs (hw s) 0x0D) (fifo (hw s)),
      s\<lparr>hw := (hw s)\<lparr>regs := (regs (hw s))(0x0D := regs (hw s) 0x0D + of_nat n),
                     bus := bus (hw s) @ replicate n (Spi 0x00)\<rparr>\<rparr>)"
proof (induction n arbitrary: s)
  case 0
  then show ?case by simp
next
  case (Suc n)
  let ?r = "pins_spiWrite 0x00 s"
  have r: "?r = (uint (fifo (hw s) (unat (regs (hw s) 0x0D))),
       s\<lparr>hw := (hw s)\<lparr>regs := (regs (hw s))(0x0D := regs (hw s) 0x0D + 1),
                     bus := bus (hw s) @ [Spi 0x00]\<rparr>\<rparr>)"
    using Suc.prems
    by (simp add: pins_spiWrite_def hw_spi_def chip_read_def next_addr_def Let_def split_def)
  have ph: "phase (hw (snd ?r)) = Access False 0" using Suc.prems by (simp add: r)
  have step: "burstRead_loop (Suc n) s =
      (word_of_int (fst ?r) # fst (burstRead_loop n (snd ?r)), snd (burstRead_loop n (snd ?r)))"
    by (simp add: split_def Let_def)
  show ?case
    apply (subst step)
    apply (subst Suc.IH [OF ph])+
    apply (simp add: r add.assoc replicate_app_Cons_same)
    done
qed

lemma burstWrite_eq:
  "burstWrite REG_FIFO buf s = s\<lparr>hw := after_burst_write buf (hw s)\<rparr>"
  by (simp add: burstWrite_def REG_FIFO_def pin_defs Let_def split_def burstWrite_loop_sem
      after_burst_write_def)

lemma burstRead_eq:
  "burstRead REG_FIFO len s =
     (fifo_fetch (nat len) (regs (hw s) 0x0D) (fifo (hw s)),
      s\<lparr>hw := after_burst_read (nat len) (hw s)\<rparr>)"
  by (simp add: burstRead_def REG_FIFO_def pin_defs Let_def split_def burstRead_loop_sem
      after_burst_read_def)

lemma spiInit_eq: "spiInit s = s\<lparr>hw := hw_pin g_nss 1 (hw s)\<rparr>"
  by (simp add: spiInit_def pins_digitalWritePin_def pins_spiPins_def pins_spiFrequency_def
      pins_spiFormat_def)

lemma resetChip_eq: "resetChip s = s\<lparr>hw := hw_pin g_rst 1 (hw_pin g_rst 0 (hw s))\<rparr>"
  by (simp add: resetChip_def basic_pause_def pins_digitalWritePin_def Let_def)

lemma hw_pin_nss_simps [simp]:
  "phase (hw_pin g_nss v h) = (if v = 0 then AwaitAddr else Deselected)"
  "regs (hw_pin g_nss v h) = regs h"
  "fifo (hw_pin p v h) = fifo h"
  "por (hw_pin p v h) = por h"
  "bus (hw_pin p v h) = bus h @ [PinWrite p v]"
  by (simp_all add: hw_pin_def Let_def g_nss_def g_rst_def)

lemma hw_pin_rst_simps [simp]:
  "phase (hw_pin g_rst v h) = phase h"
  "regs (hw_pin g_rst v h) = (if v = 0 then por h else regs h)"
  by (simp_all add: hw_pin_def Let_def g_nss_def g_rst_def)

lemma frf_floor: "\<lfloor>(of_int x :: rat) / 32000000\<rfloor> = x div 32000000"
proof -
  have "(of_int x :: rat) / 32000000 = of_int x / of_int 32000000" by simp
  then show ?thesis by (simp only: floor_divide_of_int_eq)
qed

section \<open>What each operation does, transaction by transaction\<close>

lemma setMode_eq:
  "setMode m s = s\<lparr>hw := after_write REG_OP_MODE (0x80 OR m) (hw s)\<rparr>"
  by (simp add: setMode_def reg_defs io_eq MODE_LONG_RANGE_def)

lemma setDio0Mapping_eq:
  "setDio0Mapping m s =
     s\<lparr>hw := after_write REG_DIO_MAPPING_1
             ((uint (reg REG_DIO_MAPPING_1 s) AND 0x3F) OR js_shl (m AND 0x03) 6)
             (after_read REG_DIO_MAPPING_1 (hw s))\<rparr>"
  by (simp add: setDio0Mapping_def reg_def reg_defs io_eq Let_def)

lemma applyLdro_eq:
  "applyLdro s =
     s\<lparr>hw := after_write REG_MODEM_CONFIG_3
             (if needLdro s then uint (reg REG_MODEM_CONFIG_3 s) OR 0x08
              else uint (reg REG_MODEM_CONFIG_3 s) AND 0xF7)
             (after_read REG_MODEM_CONFIG_3 (hw s))\<rparr>"
  by (simp add: applyLdro_def reg_def reg_defs io_eq)

lemma needLdro_cong:
  "g_sf s = g_sf t \<Longrightarrow> g_bwCode s = g_bwCode t \<Longrightarrow> needLdro s = needLdro t"
  by (simp add: needLdro_def split: option.split)

lemma setSpreadingFactor_eq:
  "setSpreadingFactor sf s =
     (if g_inited s then
       s\<lparr>g_sf := sf,
         hw := after_write REG_MODEM_CONFIG_3
               (if needLdro (s\<lparr>g_sf := sf\<rparr>) then uint (reg REG_MODEM_CONFIG_3 s) OR 0x08
                else uint (reg REG_MODEM_CONFIG_3 s) AND 0xF7)
               (after_read REG_MODEM_CONFIG_3
                 (after_write REG_MODEM_CONFIG_2
                    ((uint (reg REG_MODEM_CONFIG_2 s) AND 0x0F) OR js_shl sf 4)
                    (after_read REG_MODEM_CONFIG_2 (hw s))))\<rparr>
      else s)"
  by (simp add: setSpreadingFactor_def applyLdro_eq reg_def reg_defs io_eq Let_def
      cong: needLdro_cong)

lemma setBandwidth_eq:
  "setBandwidth bw s =
     (if g_inited s then
       s\<lparr>g_bwCode := bw,
         hw := after_write REG_MODEM_CONFIG_3
               (if needLdro (s\<lparr>g_bwCode := bw\<rparr>) then uint (reg REG_MODEM_CONFIG_3 s) OR 0x08
                else uint (reg REG_MODEM_CONFIG_3 s) AND 0xF7)
               (after_read REG_MODEM_CONFIG_3
                 (after_write REG_MODEM_CONFIG_1
                    ((uint (reg REG_MODEM_CONFIG_1 s) AND 0x0F) OR js_shl bw 4)
                    (after_read REG_MODEM_CONFIG_1 (hw s))))\<rparr>
      else s)"
  by (simp add: setBandwidth_def applyLdro_eq reg_def reg_defs io_eq Let_def
      cong: needLdro_cong)

lemma flag_bit: "(uint (r::byte) AND 2 ^ n \<noteq> 0) \<longleftrightarrow> bit r n"
  by (auto simp add: and_exp_eq_0_iff_not_bit bit_uint_iff dest: bit_imp_le_length)

lemma flag_rx: "(uint (r::byte) AND IRQ_RX_DONE \<noteq> 0) \<longleftrightarrow> bit r 6"
  using flag_bit [of r 6] by (simp add: IRQ_RX_DONE_def)

lemma flag_crc: "(uint (r::byte) AND IRQ_PAYLOAD_CRC_ERROR \<noteq> 0) \<longleftrightarrow> bit r 5"
  using flag_bit [of r 5] by (simp add: IRQ_PAYLOAD_CRC_ERROR_def)

lemma flag_tx: "(uint (r::byte) AND IRQ_TX_DONE \<noteq> 0) \<longleftrightarrow> bit r 3"
  using flag_bit [of r 3] by (simp add: IRQ_TX_DONE_def)

lemma dio0_txDone_eq:
  "dio0_txDone flags s =
     (if flags AND IRQ_TX_DONE \<noteq> 0
      then s\<lparr>hw := after_write REG_OP_MODE 0x85
                 (after_write REG_DIO_MAPPING_1 (uint (reg REG_DIO_MAPPING_1 s) AND 0x3F)
                   (after_read REG_DIO_MAPPING_1
                     (after_write REG_IRQ_FLAGS 0xFF (hw s)))),
             raised := raised s @ [(LORA_EVENT_ID, APP_TX)]\<rparr>
      else s)"
  by (simp add: dio0_txDone_def setMode_eq setDio0Mapping_eq control_raiseEvent_def
      reg_def reg_defs mode_defs irq_defs io_eq Let_def js_shl_def to_int32_def)

lemma dio0_receive_eq:
  "dio0_receive s =
     s\<lparr>hw := after_write REG_IRQ_FLAGS 0xFF
              (after_read REG_PKT_SNR_VALUE
                (after_read REG_PKT_RSSI_VALUE
                  (after_burst_read (unat (reg REG_RX_NB_BYTES s))
                    (after_read REG_RX_NB_BYTES
                      (after_write REG_FIFO_ADDR_PTR (uint (reg REG_FIFO_RX_CURRENT_ADDR s))
                        (after_read REG_FIFO_RX_CURRENT_ADDR (hw s))))))),
       g_lastRssi := uint (reg REG_PKT_RSSI_VALUE s) - 157,
       g_lastSnrRaw := uint (reg REG_PKT_SNR_VALUE s),
       background :=
         (case g_rxHandler s of
            None \<Rightarrow> background s
          | Some handler \<Rightarrow> background s @
              [(handler, buffer_toString
                  (fifo_fetch (unat (reg REG_RX_NB_BYTES s)) (reg REG_FIFO_RX_CURRENT_ADDR s)
                     (fifo (hw s))))])\<rparr>"
  by (simp add: dio0_receive_def burstRead_eq [unfolded REG_FIFO_def]
      control_runInBackground_def reg_def reg_defs irq_defs io_eq Let_def nat_uint_eq
      split: option.split)

lemma dio0_handler_eq:
  "dio0_handler s =
     (let flags = uint (reg REG_IRQ_FLAGS s); s1 = s\<lparr>hw := after_read REG_IRQ_FLAGS (hw s)\<rparr>
      in if bit (reg REG_IRQ_FLAGS s) 6
         then (if bit (reg REG_IRQ_FLAGS s) 5
               then s\<lparr>hw := after_write REG_IRQ_FLAGS 0xFF (after_read REG_IRQ_FLAGS (hw s))\<rparr>
               else dio0_txDone flags (dio0_receive s1))
         else dio0_txDone flags s1)"
  by (simp add: dio0_handler_def readReg_eq [of REG_IRQ_FLAGS, unfolded REG_IRQ_FLAGS_def] writeReg_eq [of REG_IRQ_FLAGS, unfolded REG_IRQ_FLAGS_def]
       flag_rx flag_crc reg_def REG_IRQ_FLAGS_def IRQ_CLEAR_ALL_def Let_def)

lemma sendBuffer_eq:
  "sendBuffer buf s =
     (if g_inited s then
       s\<lparr>hw := after_write REG_OP_MODE 0x83
               (after_write REG_PAYLOAD_LENGTH (int (length buf))
                 (after_burst_write buf
                   (after_write REG_FIFO_ADDR_PTR 0x00
                     (after_write REG_DIO_MAPPING_1
                        ((uint (reg REG_DIO_MAPPING_1 s) AND 0x3F) OR 0x40)
                        (after_read REG_DIO_MAPPING_1
                          (after_write REG_IRQ_FLAGS 0xFF
                            (after_write REG_OP_MODE 0x81 (hw s))))))))\<rparr>
      else s)"
  by (simp add: sendBuffer_def setMode_eq setDio0Mapping_eq
      burstWrite_eq [unfolded REG_FIFO_def] reg_def reg_defs mode_defs irq_defs io_eq Let_def js_shl_def to_int32_def)

lemma setTxPower_eq:
  "setTxPower dBm s =
     (if g_inited s then
       s\<lparr>hw := after_write REG_PA_DAC (if dBm = 20 then 0x87 else 0x84)
               (after_write REG_PA_CONFIG
                  (if dBm = 20 then 0x8F else 0x80 OR max 0 (min 15 (dBm - 2))) (hw s))\<rparr>
      else s)"
  by (simp add: setTxPower_def reg_defs io_eq Let_def)

lemma setCodingRate_eq:
  "setCodingRate cr s =
     (if g_inited s then
       s\<lparr>hw := after_write REG_MODEM_CONFIG_1
               ((uint (reg REG_MODEM_CONFIG_1 s) AND 0xF1) OR js_shl cr 1)
               (after_read REG_MODEM_CONFIG_1 (hw s))\<rparr>
      else s)"
  by (simp add: setCodingRate_def reg_def reg_defs io_eq Let_def)

lemma setSyncWord_eq:
  "setSyncWord w s =
     (if g_inited s then
       s\<lparr>hw := after_write REG_SYNC_WORD w (hw s)\<rparr>
      else s)"
  by (simp add: setSyncWord_def reg_defs io_eq)

lemma channelRssi_eq:
  "channelRssi s =
     (if g_inited s
      then (uint (reg REG_RSSI_VALUE s) - 157, s\<lparr>hw := after_read REG_RSSI_VALUE (hw s)\<rparr>)
      else (0, s))"
  by (simp add: channelRssi_def reg_def reg_defs io_eq)

lemma byte_256: "(256 :: byte) = 0"
  by (simp add: word_uint_eq_iff)

lemma byte_minus_256: "(- 256 :: byte) = 0"
  by (simp only: byte_256) simp

lemma byte_clear_all [simp]: "(r::byte) AND - 256 = 0"
  by (simp only: byte_minus_256) simp

text \<open>\<open>init\<close>: either the identity check fails after the reset and one read, or the
  whole start-up sequence runs.\<close>

lemma configRadioDefaults_eq:
  "configRadioDefaults band s = s\<lparr>hw := config_hw band (hw s)\<rparr>"
  unfolding configRadioDefaults_def setFrequencyMHz_def frf_floor config_hw_def
  by (simp add: io_eq reg_defs Let_def js_sar_def to_int32_def)

lemma config_hw_simps [simp]:
  "phase (config_hw band h) = Deselected"
  "por (config_hw band h) = por h"
  "fifo (config_hw band h) = fifo h"
  by (simp_all add: config_hw_def)

lemma regs_config_hw:
  "regs (config_hw band h) =
     (regs h)
     (0x0E := 0x00, 0x0F := 0x00, 0x0D := 0x00, 0x20 := 0x00, 0x21 := 0x08, 0x39 := 0x34,
      0x06 := (if band = EU868 then 0xD9 else 0xE4),
      0x07 := (if band = EU868 then 0x00 else 0xC0),
      0x08 := 0x00, 0x1D := 0x72, 0x1E := 0x74, 0x26 := 0x04,
      0x0C := regs h 0x0C OR 0x03, 0x09 := 0x8F, 0x4D := 0x84, 0x40 := 0x00)"
  by (rule ext) (simp add: config_hw_def reg_defs of_int_or_eq)

lemma init_eq:
  "init band s =
     (if por (hw s) 0x42 = 0x12
      then s\<lparr>hw := init_hw band (hw s), g_inited := True, pulse_hooked := True,
             event_hooked := True\<rparr>
      else s\<lparr>hw := after_read REG_VERSION
                      (hw_pin g_rst 1 (hw_pin g_rst 0 (hw_pin g_nss 1 (hw s)))),
             g_inited := False\<rparr>)"
  unfolding init_def configRadioDefaults_eq setMode_eq setDio0Mapping_eq
    setupDio0Interrupt_def pins_setPull_down_def basic_pause_def spiInit_eq resetChip_eq Let_def init_hw_def
  by (simp add: io_eq reg_def reg_defs mode_defs irq_defs word_uint_eq_iff regs_config_hw
      js_shl_def to_int32_def)

lemma init_hw_simps [simp]:
  "phase (init_hw band h) = Deselected"
  "por (init_hw band h) = por h"
  "fifo (init_hw band h) = fifo h"
  by (simp_all add: init_hw_def)

lemma regs_init_hw:
  "regs (init_hw band h) =
     (por h)
     (0x01 := 0x85, 0x0E := 0x00, 0x0F := 0x00, 0x0D := 0x00, 0x20 := 0x00, 0x21 := 0x08,
      0x39 := 0x34,
      0x06 := (if band = EU868 then 0xD9 else 0xE4),
      0x07 := (if band = EU868 then 0x00 else 0xC0),
      0x08 := 0x00, 0x1D := 0x72, 0x1E := 0x74, 0x26 := 0x04,
      0x0C := por h 0x0C OR 0x03, 0x09 := 0x8F, 0x4D := 0x84, 0x40 := 0x00, 0x12 := 0x00)"
  by (rule ext) (simp add: init_hw_def regs_config_hw reg_defs)

lemma s_boot_por: "por (hw s_boot) 0x42 = 0x12"
  by (simp add: s_boot_def boot_def test_por_def)

lemma s_ready_eq:
  "s_ready = s_boot\<lparr>hw := init_hw EU868 (hw s_boot), g_inited := True, pulse_hooked := True,
                      event_hooked := True\<rparr>"
  by (simp add: s_ready_def init_eq s_boot_por)

lemma s_ready_vars:
  "g_inited s_ready" "g_sf s_ready = 7" "g_bwCode s_ready = 7" "g_lastRssi s_ready = 0"
  "g_lastSnrRaw s_ready = 0" "g_rxHandler s_ready = None" "pulse_hooked s_ready"
  "event_hooked s_ready" "raised s_ready = []" "background s_ready = []"
  by (simp_all add: s_ready_eq s_boot_def boot_def)

lemma s_ready_regs:
  "regs (hw s_ready) =
     (\<lambda>a. 0)(0x42 := 0x12, 0x01 := 0x85, 0x21 := 0x08, 0x39 := 0x34, 0x06 := 0xD9,
             0x1D := 0x72, 0x1E := 0x74, 0x26 := 0x04, 0x0C := 0x03, 0x09 := 0x8F,
             0x4D := 0x84)"
  by (rule ext) (simp add: s_ready_eq regs_init_hw s_boot_def boot_def test_por_def)

section \<open>Low-data-rate optimisation\<close>

lemma js_shl_1: "7 \<le> sf \<Longrightarrow> sf \<le> 12 \<Longrightarrow> js_shl 1 sf = 2 ^ nat sf"
proof -
  assume "7 \<le> sf" "sf \<le> 12"
  then consider "sf = 7" | "sf = 8" | "sf = 9" | "sf = 10" | "sf = 11" | "sf = 12" by linarith
  then show ?thesis by cases (simp_all add: js_shl_def to_int32_def)
qed

lemma array_get_bw:
  "0 \<le> bw \<Longrightarrow> bw \<le> 9 \<Longrightarrow> array_get BW_KHZ_X100 bw = Some (BW_KHZ_X100 ! nat bw)"
  by (simp add: array_get_def BW_KHZ_X100_def)

lemma needLdro_eq:
  "7 \<le> g_sf s \<Longrightarrow> g_sf s \<le> 12 \<Longrightarrow> 0 \<le> g_bwCode s \<Longrightarrow> g_bwCode s \<le> 9 \<Longrightarrow>
   needLdro s \<longleftrightarrow> 2 ^ nat (g_sf s) * 100 > 16 * BW_KHZ_X100 ! nat (g_bwCode s)"
  by (simp add: needLdro_def js_shl_1 array_get_bw)

lemma bit_8: "bit (0x08::byte) n \<longleftrightarrow> n = 3"
proof -
  have "(0x08::byte) = 2 ^ 3" by simp
  then show ?thesis by (simp only: bit_exp_iff) auto
qed

lemma bit_F7: "bit (0xF7::byte) n \<longleftrightarrow> n < 8 \<and> n \<noteq> 3"
proof -
  have "(0xF7::byte) = NOT 0x08" by simp
  then show ?thesis by (simp only: bit_not_iff bit_8) (auto simp: bit_imp_le_length)
qed

lemma ldro_or: "bit ((r::byte) OR 0x08) n \<longleftrightarrow> n = 3 \<or> bit r n"
  by (simp only: bit_or_iff bit_8) auto

lemma ldro_and: "bit ((r::byte) AND 0xF7) n \<longleftrightarrow> n \<noteq> 3 \<and> bit r n"
  by (simp only: bit_and_iff bit_F7) (auto dest: bit_imp_le_length)

lemma byte_or_8: "(word_of_int (uint (r::byte) OR 0x08) :: byte) = r OR 0x08"
  by (simp add: of_int_or_eq)

lemma byte_and_F7: "(word_of_int (uint (r::byte) AND 0xF7) :: byte) = r AND 0xF7"
  by (simp add: of_int_and_eq)

lemma setSpreadingFactor_mc3:
  "g_inited s \<Longrightarrow> reg REG_MODEM_CONFIG_3 (setSpreadingFactor sf s) =
     (if needLdro (s\<lparr>g_sf := sf\<rparr>) then reg REG_MODEM_CONFIG_3 s OR 0x08
      else reg REG_MODEM_CONFIG_3 s AND 0xF7)"
  by (simp add: setSpreadingFactor_eq reg_def reg_defs byte_or_8 byte_and_F7)

lemma setBandwidth_mc3:
  "g_inited s \<Longrightarrow> reg REG_MODEM_CONFIG_3 (setBandwidth bw s) =
     (if needLdro (s\<lparr>g_bwCode := bw\<rparr>) then reg REG_MODEM_CONFIG_3 s OR 0x08
      else reg REG_MODEM_CONFIG_3 s AND 0xF7)"
  by (simp add: setBandwidth_eq reg_def reg_defs byte_or_8 byte_and_F7)

lemma setter_vars:
  "g_inited (setSpreadingFactor sf s) = g_inited s"
  "g_inited (setBandwidth bw s) = g_inited s"
  "g_inited s \<Longrightarrow> g_sf (setSpreadingFactor sf s) = sf"
  "g_inited s \<Longrightarrow> g_bwCode (setBandwidth bw s) = bw"
  "g_bwCode (setSpreadingFactor sf s) = g_bwCode s"
  "g_sf (setBandwidth bw s) = g_sf s"
  by (simp_all add: setSpreadingFactor_eq setBandwidth_eq)

lemma ldro_after_sf:
  assumes "g_inited s" and "7 \<le> sf" "sf \<le> 12" and "0 \<le> g_bwCode s" "g_bwCode s \<le> 9"
  shows "(bit (reg REG_MODEM_CONFIG_3 (setSpreadingFactor sf s)) 3 \<longleftrightarrow>
            2 ^ nat sf * 100 > 16 * BW_KHZ_X100 ! nat (g_bwCode s)) \<and>
         (\<forall>n. n \<noteq> 3 \<longrightarrow> bit (reg REG_MODEM_CONFIG_3 (setSpreadingFactor sf s)) n =
                           bit (reg REG_MODEM_CONFIG_3 s) n)"
proof -
  have "needLdro (s\<lparr>g_sf := sf\<rparr>) \<longleftrightarrow> 2 ^ nat sf * 100 > 16 * BW_KHZ_X100 ! nat (g_bwCode s)"
    using assms by (simp add: needLdro_eq)
  then show ?thesis
    using assms(1) by (simp add: setSpreadingFactor_mc3 ldro_or ldro_and)
qed

lemma ldro_after_bw:
  assumes "g_inited s" and "7 \<le> g_sf s" "g_sf s \<le> 12" and "0 \<le> bw" "bw \<le> 9"
  shows "(bit (reg REG_MODEM_CONFIG_3 (setBandwidth bw s)) 3 \<longleftrightarrow>
            2 ^ nat (g_sf s) * 100 > 16 * BW_KHZ_X100 ! nat bw) \<and>
         (\<forall>n. n \<noteq> 3 \<longrightarrow> bit (reg REG_MODEM_CONFIG_3 (setBandwidth bw s)) n =
                           bit (reg REG_MODEM_CONFIG_3 s) n)"
proof -
  have "needLdro (s\<lparr>g_bwCode := bw\<rparr>) \<longleftrightarrow> 2 ^ nat (g_sf s) * 100 > 16 * BW_KHZ_X100 ! nat bw"
    using assms by (simp add: needLdro_eq)
  then show ?thesis
    using assms(1) by (simp add: setBandwidth_mc3 ldro_or ldro_and)
qed

text \<open>
  Claim C1. On an initialised device, for a spreading factor \<open>sf\<close> in 7..12 and a
  bandwidth code \<open>bw\<close> in 0..9: after \<open>setSpreadingFactor(sf)\<close> with \<open>bw\<close> the current
  bandwidth code, after \<open>setBandwidth(bw)\<close> with \<open>sf\<close> the current spreading factor,
  and after both setters in either order from any state, bit 3 (low-data-rate
  optimisation) of the modem-config-3 register is set exactly when
  \<open>2^sf * 100 > 16 * BW_KHZ_X100[bw]\<close>; a single setter leaves every other bit of that
  register as it was. SF11 at 125 kHz sets the bit, SF10 at 125 kHz clears it.
\<close>

theorem C1_ldro_after_setters:
  assumes "g_inited s" and "7 \<le> sf" "sf \<le> 12" and "0 \<le> bw" "bw \<le> 9"
  shows "(g_bwCode s = bw \<longrightarrow>
            (bit (reg REG_MODEM_CONFIG_3 (setSpreadingFactor sf s)) 3 \<longleftrightarrow>
               2 ^ nat sf * 100 > 16 * BW_KHZ_X100 ! nat bw) \<and>
            (\<forall>n. n \<noteq> 3 \<longrightarrow> bit (reg REG_MODEM_CONFIG_3 (setSpreadingFactor sf s)) n =
                              bit (reg REG_MODEM_CONFIG_3 s) n)) \<and>
         (g_sf s = sf \<longrightarrow>
            (bit (reg REG_MODEM_CONFIG_3 (setBandwidth bw s)) 3 \<longleftrightarrow>
               2 ^ nat sf * 100 > 16 * BW_KHZ_X100 ! nat bw) \<and>
            (\<forall>n. n \<noteq> 3 \<longrightarrow> bit (reg REG_MODEM_CONFIG_3 (setBandwidth bw s)) n =
                              bit (reg REG_MODEM_CONFIG_3 s) n)) \<and>
         (bit (reg REG_MODEM_CONFIG_3 (setBandwidth bw (setSpreadingFactor sf s))) 3 \<longleftrightarrow>
            2 ^ nat sf * 100 > 16 * BW_KHZ_X100 ! nat bw) \<and>
         (bit (reg REG_MODEM_CONFIG_3 (setSpreadingFactor sf (setBandwidth bw s))) 3 \<longleftrightarrow>
            2 ^ nat sf * 100 > 16 * BW_KHZ_X100 ! nat bw) \<and>
         bit (reg REG_MODEM_CONFIG_3 (setBandwidth BW125k (setSpreadingFactor SF11 s))) 3 \<and>
         \<not> bit (reg REG_MODEM_CONFIG_3 (setBandwidth BW125k (setSpreadingFactor SF10 s))) 3"
proof -
  let ?rule = "2 ^ nat sf * 100 > 16 * BW_KHZ_X100 ! nat bw"
  have p1: "g_bwCode s = bw \<Longrightarrow>
      (bit (reg REG_MODEM_CONFIG_3 (setSpreadingFactor sf s)) 3 \<longleftrightarrow> ?rule) \<and>
      (\<forall>n. n \<noteq> 3 \<longrightarrow> bit (reg REG_MODEM_CONFIG_3 (setSpreadingFactor sf s)) n =
                        bit (reg REG_MODEM_CONFIG_3 s) n)"
    using ldro_after_sf [OF assms(1,2,3)] assms(4,5) by simp
  have p2: "g_sf s = sf \<Longrightarrow>
      (bit (reg REG_MODEM_CONFIG_3 (setBandwidth bw s)) 3 \<longleftrightarrow> ?rule) \<and>
      (\<forall>n. n \<noteq> 3 \<longrightarrow> bit (reg REG_MODEM_CONFIG_3 (setBandwidth bw s)) n =
                        bit (reg REG_MODEM_CONFIG_3 s) n)"
    using ldro_after_bw [OF assms(1) _ _ assms(4,5)] assms(2,3) by simp
  have p3: "bit (reg REG_MODEM_CONFIG_3 (setBandwidth bw (setSpreadingFactor sf s))) 3 \<longleftrightarrow> ?rule"
    using ldro_after_bw [of "setSpreadingFactor sf s" bw] assms
    by (simp add: setter_vars)
  have p4: "bit (reg REG_MODEM_CONFIG_3 (setSpreadingFactor sf (setBandwidth bw s))) 3 \<longleftrightarrow> ?rule"
    using ldro_after_sf [of "setBandwidth bw s" sf] assms
    by (simp add: setter_vars)
  have p5: "bit (reg REG_MODEM_CONFIG_3 (setBandwidth BW125k (setSpreadingFactor SF11 s))) 3"
    using ldro_after_bw [of "setSpreadingFactor SF11 s" BW125k] assms(1)
    by (simp add: setter_vars SF11_def BW125k_def BW_KHZ_X100_def)
  have p6: "\<not> bit (reg REG_MODEM_CONFIG_3 (setBandwidth BW125k (setSpreadingFactor SF10 s))) 3"
    using ldro_after_bw [of "setSpreadingFactor SF10 s" BW125k] assms(1)
    by (simp add: setter_vars SF10_def BW125k_def BW_KHZ_X100_def)
  show ?thesis
    using p1 p2 p3 p4 p5 p6 by blast
qed

theorem C1_ldro_witness:
  "g_inited s_ready \<and> g_bwCode s_ready = 7 \<and> g_sf s_ready = 7 \<and>
   reg REG_MODEM_CONFIG_3 s_ready = 0x04 \<and>
   bit (reg REG_MODEM_CONFIG_3 (setSpreadingFactor 11 s_ready)) 3 \<and>
   \<not> bit (reg REG_MODEM_CONFIG_3 (setBandwidth 7 s_ready)) 3 \<and>
   bit (reg REG_MODEM_CONFIG_3 (setSpreadingFactor 11 s_ready)) 2 \<and>
   bit (reg REG_MODEM_CONFIG_3 (setBandwidth 0 (setSpreadingFactor 7 s_ready))) 3"
  using C1_ldro_after_setters [of s_ready 11 7] C1_ldro_after_setters [of s_ready 7 7]
    C1_ldro_after_setters [of s_ready 7 0]
  by (simp add: s_ready_vars s_ready_regs reg_def reg_defs BW_KHZ_X100_def)

section \<open>Calls before a successful init\<close>

text \<open>
  Claim C5. While \<open>_inited\<close> is false (before \<open>init\<close>, or after an \<open>init\<close> whose identity
  check failed), \<open>sendString\<close>, \<open>sendBuffer\<close>, \<open>setTxPower\<close>, \<open>setSpreadingFactor\<close>,
  \<open>setBandwidth\<close>, \<open>setCodingRate\<close> and \<open>setSyncWord\<close> return the state they were given:
  no module variable changes and nothing is added to the bus record.
\<close>

theorem C5_noop_before_init:
  assumes "\<not> g_inited s"
  shows "sendString str s = s \<and> sendBuffer buf s = s \<and> setTxPower dBm s = s \<and>
         setSpreadingFactor sf s = s \<and> setBandwidth bw s = s \<and>
         setCodingRate cr s = s \<and> setSyncWord w s = s"
  using assms
  by (simp add: sendString_def sendBuffer_def setTxPower_def setSpreadingFactor_def
      setBandwidth_def setCodingRate_def setSyncWord_def)

theorem C5_noop_witness:
  "\<not> g_inited s_boot \<and> bus (hw s_boot) = [] \<and>
   sendString ''Hello!'' s_boot = s_boot \<and> sendBuffer [1, 2, 3] s_boot = s_boot \<and>
   setTxPower 17 s_boot = s_boot \<and> setSpreadingFactor 10 s_boot = s_boot \<and>
   setBandwidth 7 s_boot = s_boot \<and> setCodingRate 4 s_boot = s_boot \<and>
   setSyncWord 0x42 s_boot = s_boot \<and>
   \<not> g_inited s_failed \<and>
   sendString ''Hello!'' s_failed = s_failed \<and> sendBuffer [1, 2, 3] s_failed = s_failed \<and>
   setTxPower 17 s_failed = s_failed \<and> setSpreadingFactor 10 s_failed = s_failed \<and>
   setBandwidth 7 s_failed = s_failed \<and> setCodingRate 4 s_failed = s_failed \<and>
   setSyncWord 0x42 s_failed = s_failed"
proof -
  have b: "\<not> g_inited s_boot" and e: "bus (hw s_boot) = []"
    by (simp_all add: s_boot_def boot_def)
  have f: "\<not> g_inited s_failed"
    by (simp add: s_failed_def init_eq boot_def)
  show ?thesis
    using b e f
      C5_noop_before_init [OF b, of "''Hello!''" "[1, 2, 3]" 17 10 7 4 "0x42"]
      C5_noop_before_init [OF f, of "''Hello!''" "[1, 2, 3]" 17 10 7 4 "0x42"]
    by simp
qed

section \<open>Transmit power\<close>

lemma power_field:
  assumes "0 \<le> p" "p \<le> 15"
  shows "uint ((word_of_int (0x80 OR p) :: byte) AND 0x0F) = p"
    and "(word_of_int (0x80 OR p) :: byte) = 0x80 OR word_of_int p"
proof -
  have "take_bit 4 p = p" using assms by (simp add: take_bit_int_eq_self)
  moreover have "(0x0F::int) = mask 4" by (simp add: mask_eq_exp_minus_1)
  ultimately have p15: "p AND 0x0F = p" by (simp add: take_bit_eq_mask)
  have "(0x80 OR p) AND 0x0F = (0x80 AND 0x0F) OR (p AND 0x0F)"
    by (simp add: bit.conj_disj_distrib2)
  then have e: "(0x80 OR p) AND 0x0F = p" using p15 by simp
  have "(word_of_int (0x80 OR p) :: byte) AND 0x0F = word_of_int ((0x80 OR p) AND 0x0F)"
    using of_int_and_eq [of "0x80 OR p" "0x0F", where ?'a = byte] by simp
  also have "\<dots> = word_of_int p" using e by simp
  finally show "uint ((word_of_int (0x80 OR p) :: byte) AND 0x0F) = p"
    using assms by (simp add: uint_word_of_int)
  show "(word_of_int (0x80 OR p) :: byte) = 0x80 OR word_of_int p"
    by (simp add: of_int_or_eq)
qed

text \<open>
  Claim C6. On an initialised device \<open>setTxPower(dBm)\<close>, for every integer \<open>dBm\<close>:
  exactly 20 writes PA_CONFIG 0x8F and PA_DAC 0x87 (the high-power path); every other
  request writes PA_DAC 0x84 and PA_CONFIG with the PA_BOOST bit and the power field
  \<open>dBm - 2\<close> clamped to 0..15. The setting the registers stand for is always within
  2..20 dBm; a request of 1 gives the same state as a request of 2, the 2 dBm setting;
  20 and 19 give different PA_DAC values.
\<close>

theorem C6_setTxPower:
  assumes "g_inited s"
  shows "(dBm = 20 \<longrightarrow> reg REG_PA_CONFIG (setTxPower dBm s) = 0x8F \<and>
                       reg REG_PA_DAC (setTxPower dBm s) = 0x87) \<and>
         (dBm \<noteq> 20 \<longrightarrow>
            reg REG_PA_CONFIG (setTxPower dBm s) = 0x80 OR word_of_int (max 0 (min 15 (dBm - 2))) \<and>
            reg REG_PA_DAC (setTxPower dBm s) = 0x84) \<and>
         power_setting (setTxPower dBm s) =
            (if dBm = 20 then 20 else max 0 (min 15 (dBm - 2)) + 2) \<and>
         2 \<le> power_setting (setTxPower dBm s) \<and> power_setting (setTxPower dBm s) \<le> 20 \<and>
         setTxPower 1 s = setTxPower 2 s \<and> power_setting (setTxPower 1 s) = 2 \<and>
         reg REG_PA_DAC (setTxPower 20 s) \<noteq> reg REG_PA_DAC (setTxPower 19 s)"
proof -
  let ?p = "max 0 (min 15 (dBm - 2))"
  have p: "0 \<le> ?p" "?p \<le> 15" by simp_all
  have regs20: "dBm = 20 \<Longrightarrow> reg REG_PA_CONFIG (setTxPower dBm s) = 0x8F \<and>
                       reg REG_PA_DAC (setTxPower dBm s) = 0x87"
    using assms by (simp add: setTxPower_eq reg_def reg_defs)
  have regsn: "dBm \<noteq> 20 \<Longrightarrow>
            reg REG_PA_CONFIG (setTxPower dBm s) = word_of_int (0x80 OR ?p) \<and>
            reg REG_PA_DAC (setTxPower dBm s) = 0x84"
    using assms by (simp add: setTxPower_eq reg_def reg_defs)
  have ps: "power_setting (setTxPower dBm s) = (if dBm = 20 then 20 else ?p + 2)"
  proof (cases "dBm = 20")
    case True
    then show ?thesis using regs20 by (simp add: power_setting_def)
  next
    case False
    then show ?thesis using regsn power_field(1) [OF p]
      by (simp add: power_setting_def)
  qed
  have one: "setTxPower 1 s = setTxPower 2 s"
    using assms by (simp add: setTxPower_eq)
  have ps1: "power_setting (setTxPower 1 s) = 2"
    using assms by (simp add: setTxPower_eq power_setting_def reg_def reg_defs)
  have dac: "reg REG_PA_DAC (setTxPower 20 s) \<noteq> reg REG_PA_DAC (setTxPower 19 s)"
    using assms by (simp add: setTxPower_eq reg_def reg_defs)
  show ?thesis
    using regs20 regsn ps one ps1 dac power_field(2) [OF p] by auto
qed

theorem C6_setTxPower_witness:
  "g_inited s_ready \<and> reg REG_PA_CONFIG (setTxPower 17 s_ready) = 0x8F \<and>
   reg REG_PA_DAC (setTxPower 17 s_ready) = 0x84 \<and>
   power_setting (setTxPower 17 s_ready) = 17 \<and>
   setTxPower 1 s_ready = setTxPower 2 s_ready"
  using C6_setTxPower [of s_ready 17]
  by (simp add: s_ready_vars)

section \<open>Spreading factor\<close>

lemma js_shl_4: "7 \<le> sf \<Longrightarrow> sf \<le> 12 \<Longrightarrow> js_shl sf 4 = sf * 16"
proof -
  assume "7 \<le> sf" "sf \<le> 12"
  then consider "sf = 7" | "sf = 8" | "sf = 9" | "sf = 10" | "sf = 11" | "sf = 12" by linarith
  then show ?thesis by cases (simp_all add: js_shl_def to_int32_def)
qed

lemma nibble_write:
  assumes "7 \<le> sf" "sf \<le> 12"
  shows "drop_bit 4 (word_of_int ((uint (r::byte) AND 0x0F) OR sf * 16) :: byte) = word_of_int sf"
    and "(word_of_int ((uint r AND 0x0F) OR sf * 16) :: byte) AND 0x0F = r AND 0x0F"
proof -
  from assms consider "sf = 7" | "sf = 8" | "sf = 9" | "sf = 10" | "sf = 11" | "sf = 12"
    by linarith
  then show "drop_bit 4 (word_of_int ((uint r AND 0x0F) OR sf * 16) :: byte) = word_of_int sf"
    by cases (simp_all add: of_int_or_eq of_int_and_eq)
  from assms consider "sf = 7" | "sf = 8" | "sf = 9" | "sf = 10" | "sf = 11" | "sf = 12"
    by linarith
  then show "(word_of_int ((uint r AND 0x0F) OR sf * 16) :: byte) AND 0x0F = r AND 0x0F"
    by cases (simp_all add: of_int_or_eq of_int_and_eq bit.conj_disj_distrib2 and.assoc)
qed

lemma take_bit_to_int32: "n \<le> 32 \<Longrightarrow> take_bit n (to_int32 x) = take_bit n x"
proof -
  assume n: "n \<le> 32"
  have "to_int32 x = signed_take_bit 31 x"
    by (simp add: to_int32_def sint_sbintrunc')
  then show ?thesis using n by (simp add: take_bit_signed_take_bit)
qed

lemma byte_js_shl: "(word_of_int (js_shl x 4) :: byte) = push_bit 4 (word_of_int x)"
proof -
  have "take_bit 8 (js_shl x 4) = take_bit 8 (push_bit 4 (to_int32 x))"
    by (simp add: js_shl_def take_bit_to_int32)
  also have "\<dots> = push_bit 4 (take_bit 4 (to_int32 x))"
    by (simp add: take_bit_push_bit)
  also have "\<dots> = push_bit 4 (take_bit 4 x)"
    by (simp add: take_bit_to_int32)
  also have "\<dots> = take_bit 8 (push_bit 4 x)"
    by (simp add: take_bit_push_bit)
  finally have "(word_of_int (js_shl x 4) :: byte) = word_of_int (push_bit 4 x)"
    by (simp add: word_of_int_eq_iff)
  then show ?thesis by (simp add: push_bit_of_int flip: of_int_push_bit)
qed

lemma mc2_byte:
  "(word_of_int ((uint (r::byte) AND 0x0F) OR js_shl x 4) :: byte) =
     (r AND 0x0F) OR push_bit 4 (word_of_int x)"
  by (simp add: of_int_or_eq of_int_and_eq byte_js_shl)

lemma byte_0F: "(0x0F::byte) = mask 4"
  by (simp add: mask_eq_exp_minus_1)

lemma low_nibble_kept: "((r::byte) AND 0x0F OR push_bit 4 w) AND 0x0F = r AND 0x0F"
  unfolding byte_0F
  by (rule bit_eqI) (auto simp add: bit_and_iff bit_or_iff bit_mask_iff bit_push_bit_iff)

lemma high_nibble_set: "drop_bit 4 ((r::byte) AND 0x0F OR push_bit 4 w) = take_bit 4 w"
  unfolding byte_0F
  by (rule bit_eqI)
    (auto simp add: bit_and_iff bit_or_iff bit_mask_iff bit_push_bit_iff bit_drop_bit_eq
      bit_take_bit_iff dest: bit_imp_le_length)


text \<open>
  Claim C7 as stated fails: \<open>setSpreadingFactor\<close> has no range check. On the initialised
  test chip a request of 13 and a request of 6 are stored in \<open>_sf\<close> and written to the
  register.
\<close>

theorem C7_setSpreadingFactor_counterexample:
  "g_inited s_ready \<and> g_sf s_ready = 7 \<and> reg REG_MODEM_CONFIG_2 s_ready = 0x74 \<and>
   g_sf (setSpreadingFactor 13 s_ready) = 13 \<and>
   reg REG_MODEM_CONFIG_2 (setSpreadingFactor 13 s_ready) = 0xD4 \<and>
   g_sf (setSpreadingFactor 6 s_ready) = 6 \<and>
   reg REG_MODEM_CONFIG_2 (setSpreadingFactor 6 s_ready) = 0x64"
  by (simp add: setSpreadingFactor_eq s_ready_vars s_ready_regs reg_def reg_defs js_shl_def
      to_int32_def)

text \<open>
  Claim C7, amended. On an initialised device \<open>setSpreadingFactor(sf)\<close> has no range
  check: for every \<open>sf\<close> it stores \<open>sf\<close> in \<open>_sf\<close>, reads the modem-config-2 register and
  writes back its lower nibble combined with \<open>sf << 4\<close>, so that the lower nibble is
  preserved and the upper nibble holds the low four bits of \<open>sf\<close>, which is \<open>sf\<close> itself
  for \<open>sf\<close> in 7..12 (the members of the SpreadingFactor enum). It then recomputes the
  LDRO bit of modem-config-3 from the new spreading factor and the current bandwidth
  code, leaving the other bits of that register unchanged. Its bus traffic is exactly
  these two reads and two writes.
\<close>

theorem C7_setSpreadingFactor:
  assumes "g_inited s"
  shows "g_sf (setSpreadingFactor sf s) = sf \<and>
         reg REG_MODEM_CONFIG_2 (setSpreadingFactor sf s) =
           (reg REG_MODEM_CONFIG_2 s AND 0x0F) OR push_bit 4 (word_of_int sf) \<and>
         reg REG_MODEM_CONFIG_2 (setSpreadingFactor sf s) AND 0x0F =
           reg REG_MODEM_CONFIG_2 s AND 0x0F \<and>
         drop_bit 4 (reg REG_MODEM_CONFIG_2 (setSpreadingFactor sf s)) =
           take_bit 4 (word_of_int sf) \<and>
         (7 \<le> sf \<and> sf \<le> 12 \<longrightarrow>
            drop_bit 4 (reg REG_MODEM_CONFIG_2 (setSpreadingFactor sf s)) = word_of_int sf) \<and>
         (bit (reg REG_MODEM_CONFIG_3 (setSpreadingFactor sf s)) 3 \<longleftrightarrow>
            needLdro (setSpreadingFactor sf s)) \<and>
         (\<forall>n. n \<noteq> 3 \<longrightarrow> bit (reg REG_MODEM_CONFIG_3 (setSpreadingFactor sf s)) n =
                           bit (reg REG_MODEM_CONFIG_3 s) n) \<and>
         bus (hw (setSpreadingFactor sf s)) =
           bus (hw s) @ rd_frame REG_MODEM_CONFIG_2 @
           wr_frame REG_MODEM_CONFIG_2
             ((uint (reg REG_MODEM_CONFIG_2 s) AND 0x0F) OR js_shl sf 4) @
           rd_frame REG_MODEM_CONFIG_3 @
           wr_frame REG_MODEM_CONFIG_3
             (if needLdro (setSpreadingFactor sf s)
              then uint (reg REG_MODEM_CONFIG_3 s) OR 0x08
              else uint (reg REG_MODEM_CONFIG_3 s) AND 0xF7)"
proof -
  have var: "g_sf (setSpreadingFactor sf s) = sf"
       "g_bwCode (setSpreadingFactor sf s) = g_bwCode s"
    using assms by (simp_all add: setSpreadingFactor_eq)
  have nl: "needLdro (setSpreadingFactor sf s) = needLdro (s\<lparr>g_sf := sf\<rparr>)"
    by (rule needLdro_cong) (simp_all add: var)
  have mc2: "reg REG_MODEM_CONFIG_2 (setSpreadingFactor sf s) =
      (reg REG_MODEM_CONFIG_2 s AND 0x0F) OR push_bit 4 (word_of_int sf)"
    using assms by (simp add: setSpreadingFactor_eq reg_def reg_defs mc2_byte)
  have rng: "7 \<le> sf \<and> sf \<le> 12 \<longrightarrow>
      drop_bit 4 (reg REG_MODEM_CONFIG_2 (setSpreadingFactor sf s)) = word_of_int sf"
  proof
    assume r: "7 \<le> sf \<and> sf \<le> 12"
    then have "reg REG_MODEM_CONFIG_2 (setSpreadingFactor sf s) =
        word_of_int ((uint (reg REG_MODEM_CONFIG_2 s) AND 0x0F) OR sf * 16)"
      using assms by (simp add: setSpreadingFactor_eq reg_def reg_defs js_shl_4)
    then show "drop_bit 4 (reg REG_MODEM_CONFIG_2 (setSpreadingFactor sf s)) = word_of_int sf"
      using r by (simp add: nibble_write)
  qed
  have mc3: "(bit (reg REG_MODEM_CONFIG_3 (setSpreadingFactor sf s)) 3 \<longleftrightarrow>
            needLdro (setSpreadingFactor sf s)) \<and>
         (\<forall>n. n \<noteq> 3 \<longrightarrow> bit (reg REG_MODEM_CONFIG_3 (setSpreadingFactor sf s)) n =
                           bit (reg REG_MODEM_CONFIG_3 s) n)"
    using assms by (simp add: nl setSpreadingFactor_mc3 ldro_or ldro_and)
  have tr: "bus (hw (setSpreadingFactor sf s)) =
           bus (hw s) @ rd_frame REG_MODEM_CONFIG_2 @
           wr_frame REG_MODEM_CONFIG_2
             ((uint (reg REG_MODEM_CONFIG_2 s) AND 0x0F) OR js_shl sf 4) @
           rd_frame REG_MODEM_CONFIG_3 @
           wr_frame REG_MODEM_CONFIG_3
             (if needLdro (setSpreadingFactor sf s)
              then uint (reg REG_MODEM_CONFIG_3 s) OR 0x08
              else uint (reg REG_MODEM_CONFIG_3 s) AND 0xF7)"
    unfolding nl using assms by (simp add: setSpreadingFactor_eq reg_def reg_defs)
  have low: "reg REG_MODEM_CONFIG_2 (setSpreadingFactor sf s) AND 0x0F =
      reg REG_MODEM_CONFIG_2 s AND 0x0F"
    unfolding mc2 by (rule low_nibble_kept)
  have high: "drop_bit 4 (reg REG_MODEM_CONFIG_2 (setSpreadingFactor sf s)) =
      take_bit 4 (word_of_int sf)"
    unfolding mc2 by (rule high_nibble_set)
  show ?thesis
    using var(1) mc2 low high rng mc3 tr by blast
qed

theorem C7_setSpreadingFactor_witness:
  "g_inited s_ready \<and> (7::int) \<le> 9 \<and> (9::int) \<le> 12 \<and>
   g_sf (setSpreadingFactor 9 s_ready) = 9 \<and>
   drop_bit 4 (reg REG_MODEM_CONFIG_2 (setSpreadingFactor 9 s_ready)) = 9 \<and>
   reg REG_MODEM_CONFIG_2 (setSpreadingFactor 9 s_ready) AND 0x0F = 0x04 \<and>
   reg REG_MODEM_CONFIG_2 (setSpreadingFactor 9 s_ready) = 0x94 \<and>
   reg REG_MODEM_CONFIG_2 (setSpreadingFactor 3 s_ready) = 0x34 \<and>
   \<not> needLdro (setSpreadingFactor 9 s_ready) \<and>
   \<not> bit (reg REG_MODEM_CONFIG_3 (setSpreadingFactor 9 s_ready)) 3 \<and>
   bit (reg REG_MODEM_CONFIG_3 (setSpreadingFactor 9 s_ready)) 2"
proof -
  have i: "g_inited s_ready" by (simp add: s_ready_vars)
  have n: "\<not> needLdro (setSpreadingFactor 9 s_ready)"
    by (simp add: needLdro_def setSpreadingFactor_eq s_ready_vars array_get_def
        BW_KHZ_X100_def js_shl_def to_int32_def)
  have r: "reg REG_MODEM_CONFIG_2 s_ready = 0x74" "reg REG_MODEM_CONFIG_3 s_ready = 0x04"
    by (simp_all add: s_ready_regs reg_def reg_defs)
  show ?thesis
    using i n C7_setSpreadingFactor [OF i, of 9] C7_setSpreadingFactor [OF i, of 3]
    by (simp add: r)
qed

section \<open>Frequency word\<close>

text \<open>
  Claim C8. When the identity check passes, the three frequency registers after
  \<open>init(band)\<close> hold, most significant byte first, the integer
  \<open>freqHz * 2^19 div 32000000\<close> for 868 MHz and 915 MHz: the bytes D9 00 00 and
  E4 C0 00. The division is exact and the product is below \<open>2^53\<close>, so the value does
  not depend on rounding.
\<close>

theorem C8_frequency_word:
  assumes "por (hw s) 0x42 = 0x12"
  shows "uint (reg REG_FRF_MSB (init band s)) * 65536 + uint (reg REG_FRF_MID (init band s)) * 256
           + uint (reg REG_FRF_LSB (init band s))
         = (if band = EU868 then 868 else 915) * 1000000 * 2 ^ 19 div 32000000 \<and>
         (band = EU868 \<longrightarrow> reg REG_FRF_MSB (init band s) = 0xD9 \<and>
            reg REG_FRF_MID (init band s) = 0x00 \<and> reg REG_FRF_LSB (init band s) = 0x00) \<and>
         (band = AU915 \<longrightarrow> reg REG_FRF_MSB (init band s) = 0xE4 \<and>
            reg REG_FRF_MID (init band s) = 0xC0 \<and> reg REG_FRF_LSB (init band s) = 0x00) \<and>
         (32000000::int) dvd (if band = EU868 then 868 else 915) * 1000000 * 2 ^ 19 \<and>
         (if band = EU868 then 868 else 915) * 1000000 * 2 ^ 19 < (2::int) ^ 53"
  using assms by (cases band) (simp_all add: init_eq regs_init_hw reg_def reg_defs)

theorem C8_frequency_word_witness:
  "por (hw s_boot) 0x42 = 0x12 \<and>
   reg REG_FRF_MSB (init AU915 s_boot) = 0xE4 \<and> reg REG_FRF_MID (init AU915 s_boot) = 0xC0 \<and>
   reg REG_FRF_LSB (init AU915 s_boot) = 0x00 \<and>
   reg REG_FRF_MSB (init EU868 s_boot) = 0xD9 \<and> reg REG_FRF_MID (init EU868 s_boot) = 0x00 \<and>
   reg REG_FRF_LSB (init EU868 s_boot) = 0x00"
  using C8_frequency_word [of s_boot AU915] C8_frequency_word [of s_boot EU868]
  by (simp add: s_boot_por)

section \<open>The deferred interrupt handler\<close>

text \<open>
  Claim C4. When the status register shows receive-complete (bit 6) together with
  payload CRC error (bit 5), the deferred handler does exactly two transactions, a read
  of the status register and a write of 0xFF to it, which clears it. The FIFO window is
  not addressed and the FIFO pointer is unchanged, no receive-handler call is scheduled,
  no event is raised, and the stored RSSI and SNR are unchanged.
\<close>

theorem C4_crc_error_discards:
  assumes "bit (reg REG_IRQ_FLAGS s) 6" and "bit (reg REG_IRQ_FLAGS s) 5"
  shows "dio0_handler s =
           s\<lparr>hw := after_write REG_IRQ_FLAGS 0xFF (after_read REG_IRQ_FLAGS (hw s))\<rparr> \<and>
         bus (hw (dio0_handler s)) =
           bus (hw s) @ rd_frame REG_IRQ_FLAGS @ wr_frame REG_IRQ_FLAGS 0xFF \<and>
         reg REG_IRQ_FLAGS (dio0_handler s) = 0 \<and>
         reg REG_FIFO_ADDR_PTR (dio0_handler s) = reg REG_FIFO_ADDR_PTR s \<and>
         background (dio0_handler s) = background s \<and>
         raised (dio0_handler s) = raised s \<and>
         g_lastRssi (dio0_handler s) = g_lastRssi s \<and>
         g_lastSnrRaw (dio0_handler s) = g_lastSnrRaw s"
  using assms by (simp add: dio0_handler_eq reg_def reg_defs)

lemma s_crc_eq:
  "s_crc = s_ready\<lparr>g_rxHandler := Some 1,
      hw := (hw s_ready)\<lparr>regs := (regs (hw s_ready))(0x12 := 0x60)\<rparr>\<rparr>"
  by (simp add: s_crc_def run_def onReceivedString_def chip_status_def status_regs_def)

theorem C4_crc_error_witness:
  "bit (reg REG_IRQ_FLAGS s_crc) 6 \<and> bit (reg REG_IRQ_FLAGS s_crc) 5 \<and>
   g_rxHandler s_crc = Some 1 \<and>
   bus (hw (dio0_handler s_crc)) =
     bus (hw s_crc) @ rd_frame REG_IRQ_FLAGS @ wr_frame REG_IRQ_FLAGS 0xFF \<and>
   background (dio0_handler s_crc) = [] \<and> g_lastRssi (dio0_handler s_crc) = 0 \<and>
   g_lastSnrRaw (dio0_handler s_crc) = 0 \<and> reg REG_IRQ_FLAGS (dio0_handler s_crc) = 0"
  using C4_crc_error_discards [of s_crc]
  by (simp add: s_crc_eq s_ready_vars reg_def reg_defs)

text \<open>
  Claim C3 against the code. After \<open>sendBuffer\<close> the chip reports receive-complete, CRC
  error and transmit-complete together (status 0x68). The handler returns from the CRC
  branch: the routing stays at transmit-complete, the mode stays at transmit, no APP_TX
  event is raised, and the transmit-complete flag is cleared with the others. With
  status 0x48 (no CRC error) the transmit-completion branch runs.
\<close>

theorem C3_tx_done_skipped_after_crc_error:
  "reg REG_IRQ_FLAGS (run [SendBuffer [1, 2, 3], ChipStatus 0x12 0x68] s_ready) = 0x68 \<and>
   bit (0x68 :: byte) 3 \<and>
   interruptRouting (run [SendBuffer [1, 2, 3], ChipStatus 0x12 0x68] s_ready) = Some TxComplete \<and>
   radioState (run [SendBuffer [1, 2, 3], ChipStatus 0x12 0x68] s_ready) = Some Transmitting \<and>
   interruptRouting (run [SendBuffer [1, 2, 3], ChipStatus 0x12 0x68, Dio0Pulse] s_ready)
     = Some TxComplete \<and>
   radioState (run [SendBuffer [1, 2, 3], ChipStatus 0x12 0x68, Dio0Pulse] s_ready)
     = Some Transmitting \<and>
   raised (run [SendBuffer [1, 2, 3], ChipStatus 0x12 0x68, Dio0Pulse] s_ready)
     = [(LORA_EVENT_ID, INT_DIO0)] \<and>
   reg REG_IRQ_FLAGS (run [SendBuffer [1, 2, 3], ChipStatus 0x12 0x68, Dio0Pulse] s_ready) = 0 \<and>
   interruptRouting (run [SendBuffer [1, 2, 3], ChipStatus 0x12 0x48, Dio0Pulse] s_ready)
     = Some RxComplete \<and>
   radioState (run [SendBuffer [1, 2, 3], ChipStatus 0x12 0x48, Dio0Pulse] s_ready)
     = Some Receiving \<and>
   raised (run [SendBuffer [1, 2, 3], ChipStatus 0x12 0x48, Dio0Pulse] s_ready)
     = [(LORA_EVENT_ID, INT_DIO0), (LORA_EVENT_ID, APP_TX)]"
  by (simp add: run_def sendBuffer_eq s_ready_vars s_ready_regs chip_status_def
      status_regs_def dio0_pulse_def control_raiseEvent_def dio0_handler_eq dio0_txDone_eq
      dio0_receive_eq interruptRouting_def radioState_def reg_def reg_defs irq_defs Let_def
      LORA_EVENT_ID_def INT_DIO0_def APP_TX_def)

section \<open>Invariants of runs\<close>

lemmas op_eqs =
  init_eq sendString_def sendBuffer_eq onReceivedString_def onSent_def
  receivedSignalStrength_def receivedSnr_def channelRssi_eq setTxPower_eq
  setSpreadingFactor_eq setBandwidth_eq setCodingRate_eq setSyncWord_eq
  dio0_pulse_def control_raiseEvent_def dio0_handler_eq dio0_txDone_eq dio0_receive_eq
  chip_status_def chip_fifo_def Let_def

lemma step_keeps_metrics:
  assumes "\<not> stores_packet e s"
  shows "g_lastRssi (step e s) = g_lastRssi s \<and> g_lastSnrRaw (step e s) = g_lastSnrRaw s"
  using assms
  by (cases e) (simp_all add: op_eqs stores_packet_def reg_def reg_defs)

lemma quiet_keeps_metrics:
  "quiet es s \<Longrightarrow>
   g_lastRssi (run es s) = g_lastRssi s \<and> g_lastSnrRaw (run es s) = g_lastSnrRaw s"
proof (induction es arbitrary: s)
  case Nil
  then show ?case by (simp add: run_def)
next
  case (Cons e es)
  then have "\<not> stores_packet e s" and q: "quiet es (step e s)" by simp_all
  then have "g_lastRssi (step e s) = g_lastRssi s \<and> g_lastSnrRaw (step e s) = g_lastSnrRaw s"
    by (simp add: step_keeps_metrics)
  moreover have "run (e # es) s = run es (step e s)" by (simp add: run_def)
  ultimately show ?case using Cons.IH [OF q] by simp
qed

lemma step_raw_byte:
  assumes "0 \<le> g_lastSnrRaw s \<and> g_lastSnrRaw s \<le> 255"
  shows "0 \<le> g_lastSnrRaw (step e s) \<and> g_lastSnrRaw (step e s) \<le> 255"
proof -
  have u: "\<And>r::byte. uint r \<le> 255" using uint_lt2p [where ?'a = 8] by (simp add: zle_diff1_eq [symmetric])
  show ?thesis
  using assms
  by (cases e) (simp_all add: op_eqs reg_def reg_defs u)
qed


lemma run_Cons: "run (e # es) s = run es (step e s)"
  by (simp add: run_def)

lemma run_snoc: "run (es @ [e]) s = step e (run es s)"
  by (simp add: run_def)

lemma run_raw_byte:
  "0 \<le> g_lastSnrRaw s \<and> g_lastSnrRaw s \<le> 255 \<Longrightarrow>
   0 \<le> g_lastSnrRaw (run es s) \<and> g_lastSnrRaw (run es s) \<le> 255"
proof (induction es arbitrary: s)
  case Nil
  then show ?case by (simp add: run_def)
next
  case (Cons e es)
  show ?case unfolding run_Cons by (rule Cons.IH) (rule step_raw_byte [OF Cons.prems])
qed

lemma sint_raw:
  assumes "0 \<le> raw" "raw \<le> 255"
  shows "sint (word_of_int raw :: byte) = (if raw > 127 then raw - 256 else raw)"
proof -
  have tb: "take_bit 8 raw = raw" using assms by (simp add: take_bit_int_eq_self)
  have b7: "bit raw 7 \<longleftrightarrow> raw > 127"
  proof -
    have "raw div 128 = 0 \<or> raw div 128 = 1" using assms by presburger
    moreover have "raw div 128 = 1 \<longleftrightarrow> raw > 127" using assms by presburger
    ultimately show ?thesis by (auto simp add: bit_iff_odd)
  qed
  have "sint (word_of_int raw :: byte) = signed_take_bit 7 raw"
    by (simp add: sint_sbintrunc')
  also have "\<dots> = take_bit 8 raw - 2 ^ 8 * of_bool (bit raw 7)"
    using signed_take_bit_eq_take_bit_minus [of 7 raw] by simp
  finally show ?thesis by (simp add: tb b7)
qed

lemmas eval_simps =
  op_eqs run_def s_boot_def boot_def test_por_def test_fifo_def stores_packet_def
  status_regs_def regs_init_hw reg_def reg_defs irq_defs

section \<open>Signal quality accessors\<close>

text \<open>
  Claim C9. In every state reached from the program start, \<open>receivedSnr\<close> returns the
  stored raw byte read as a two's-complement 8-bit value, divided by 4 (and so it does
  in any state whose raw value is within 0..255). After a run in which no packet was
  stored it returns 0. A raw value of 0xFF gives -0.25 and 0x08 gives 2.
\<close>

theorem C9_receivedSnr:
  "fst (receivedSnr (run es (boot p f))) =
     of_int (sint (word_of_int (g_lastSnrRaw (run es (boot p f))) :: byte)) / 4 \<and>
   (quiet es (boot p f) \<longrightarrow> fst (receivedSnr (run es (boot p f))) = 0) \<and>
   (0 \<le> g_lastSnrRaw s \<and> g_lastSnrRaw s \<le> 255 \<longrightarrow>
      fst (receivedSnr s) = of_int (sint (word_of_int (g_lastSnrRaw s) :: byte)) / 4) \<and>
   (g_lastSnrRaw s = 0xFF \<longrightarrow> fst (receivedSnr s) = - 1 / 4) \<and>
   (g_lastSnrRaw s = 0x08 \<longrightarrow> fst (receivedSnr s) = 2)"
proof -
  have gen: "\<And>t. 0 \<le> g_lastSnrRaw t \<and> g_lastSnrRaw t \<le> 255 \<Longrightarrow>
      fst (receivedSnr t) = of_int (sint (word_of_int (g_lastSnrRaw t) :: byte)) / 4"
    by (simp add: receivedSnr_def sint_raw)
  have "0 \<le> g_lastSnrRaw (boot p f) \<and> g_lastSnrRaw (boot p f) \<le> 255"
    by (simp add: boot_def)
  then have reach: "0 \<le> g_lastSnrRaw (run es (boot p f)) \<and> g_lastSnrRaw (run es (boot p f)) \<le> 255"
    by (rule run_raw_byte)
  have q: "quiet es (boot p f) \<Longrightarrow> fst (receivedSnr (run es (boot p f))) = 0"
    using quiet_keeps_metrics [of es "boot p f"] by (simp add: receivedSnr_def boot_def)
  show ?thesis
    using gen [OF reach] gen [of s] q by (simp add: receivedSnr_def)
qed

theorem C9_receivedSnr_witness:
  "quiet es_quiet s_boot \<and> fst (receivedSnr (run es_quiet s_boot)) = 0 \<and>
   \<not> quiet es_packet s_boot \<and> g_lastSnrRaw (run es_packet s_boot) = 0xFF \<and>
   fst (receivedSnr (run es_packet s_boot)) = - 1 / 4"
  using C9_receivedSnr [of es_quiet test_por test_fifo "run es_packet s_boot"]
  by (simp add: es_quiet_def es_packet_def eval_simps)

text \<open>
  Claim C10. \<open>receivedSignalStrength\<close> and \<open>receivedSnr\<close> return the state they were
  given, in every state (also before \<open>init\<close> and after a failed \<open>init\<close>): no module
  variable changes and nothing is added to the bus record. After a run from the program
  start in which no packet was stored both return 0.
\<close>

theorem C10_metric_accessors:
  "snd (receivedSignalStrength s) = s \<and> snd (receivedSnr s) = s \<and>
   (quiet es (boot p f) \<longrightarrow>
      fst (receivedSignalStrength (run es (boot p f))) = 0 \<and>
      fst (receivedSnr (run es (boot p f))) = 0)"
  using quiet_keeps_metrics [of es "boot p f"]
  by (simp add: receivedSignalStrength_def receivedSnr_def boot_def)


theorem C10_metric_accessors_witness:
  "quiet es_failed (boot (\<lambda>a. 0) test_fifo) \<and>
   \<not> g_inited (run es_failed (boot (\<lambda>a. 0) test_fifo)) \<and>
   fst (receivedSignalStrength (run es_failed (boot (\<lambda>a. 0) test_fifo))) = 0 \<and>
   fst (receivedSnr (run es_failed (boot (\<lambda>a. 0) test_fifo))) = 0 \<and>
   snd (receivedSnr (run es_packet s_boot)) = run es_packet s_boot \<and>
   fst (receivedSignalStrength (run es_packet s_boot)) = - 57"
  using C10_metric_accessors [of "run es_packet s_boot" es_failed "\<lambda>a. 0" test_fifo]
  by (simp add: es_failed_def es_packet_def eval_simps)


section \<open>Interrupt routing and radio state\<close>

lemma map_tx: "drop_bit 6 (word_of_int ((uint (v::byte) AND 0x3F) OR 0x40) :: byte) = 1"
  by (simp add: of_int_or_eq of_int_and_eq)

lemma map_rx: "drop_bit 6 (word_of_int (uint (v::byte) AND 0x3F) :: byte) = 0"
  by (simp add: of_int_and_eq)

lemma routing_inv_step:
  assumes "routing_inv s"
  shows "routing_inv (step e s)"
  using assms
  by (cases e) (auto simp add: op_eqs routing_inv_def reg_def reg_defs map_tx map_rx
      regs_init_hw status_regs_def)

lemma routing_inv_run: "routing_inv s \<Longrightarrow> routing_inv (run es s)"
proof (induction es arbitrary: s)
  case Nil
  then show ?case by (simp add: run_def)
next
  case (Cons e es)
  show ?case unfolding run_Cons by (rule Cons.IH) (rule routing_inv_step [OF Cons.prems])
qed

lemma routing_inv_ok: "routing_inv s \<Longrightarrow> routing_ok s"
  by (auto simp add: routing_inv_def routing_ok_def interruptRouting_def radioState_def
      reg_def reg_defs split: if_splits)

text \<open>
  Claim C2. On a chip whose power-on routing is not transmit-complete, in every state
  reached from the program start (taken between operations, which section 5 of the
  specification makes atomic) the routing is transmit-complete only in the
  Transmitting state and is receive-complete in the Receiving state. The
  transmit-completion path of the handler writes the routing back to receive-complete
  before it commands continuous receive: the state in which it calls
  \<open>setMode(MODE_RX_CONTINUOUS)\<close> has the routing at receive-complete.
\<close>

theorem C2_routing_invariant:
  assumes "drop_bit 6 (p 0x40) \<noteq> (1::byte)"
  shows "routing_ok (run es (boot p f)) \<and>
         (\<forall>flags s. flags AND IRQ_TX_DONE \<noteq> 0 \<longrightarrow>
            dio0_txDone flags s =
              control_raiseEvent LORA_EVENT_ID APP_TX
                (setMode MODE_RX_CONTINUOUS
                  (setDio0Mapping 0 (writeReg REG_IRQ_FLAGS IRQ_CLEAR_ALL s))) \<and>
            interruptRouting (setDio0Mapping 0 (writeReg REG_IRQ_FLAGS IRQ_CLEAR_ALL s))
              = Some RxComplete)"
proof -
  have "routing_inv (boot p f)"
    using assms by (simp add: routing_inv_def boot_def reg_def reg_defs)
  then have "routing_ok (run es (boot p f))"
    by (intro routing_inv_ok routing_inv_run)
  moreover have "\<And>s. interruptRouting (setDio0Mapping 0 (writeReg REG_IRQ_FLAGS IRQ_CLEAR_ALL s))
              = Some RxComplete"
    by (simp add: setDio0Mapping_eq io_eq interruptRouting_def reg_def reg_defs irq_defs
        js_shl_def to_int32_def map_rx)
  ultimately show ?thesis by (simp add: dio0_txDone_def Let_def)
qed


theorem C2_routing_invariant_witness:
  "drop_bit 6 (test_por 0x40) \<noteq> (1::byte) \<and>
   routing_ok (run es_send s_boot) \<and>
   interruptRouting (run es_send s_boot) = Some TxComplete \<and>
   radioState (run es_send s_boot) = Some Transmitting \<and>
   routing_ok (run es_sent s_boot) \<and>
   radioState (run es_sent s_boot) = Some Receiving \<and>
   interruptRouting (run es_sent s_boot) = Some RxComplete \<and>
   0x08 AND IRQ_TX_DONE \<noteq> 0 \<and>
   interruptRouting (setDio0Mapping 0 (writeReg REG_IRQ_FLAGS IRQ_CLEAR_ALL (run es_send s_boot)))
     = Some RxComplete"
proof -
  have h: "drop_bit 6 (test_por 0x40) \<noteq> (1::byte)" by (simp add: test_por_def)
  have t: "0x08 AND IRQ_TX_DONE \<noteq> 0" by (simp add: IRQ_TX_DONE_def)
  note send = C2_routing_invariant [of test_por es_send test_fifo, OF h, THEN conjunct1]
  note sent = C2_routing_invariant [of test_por es_sent test_fifo, OF h, THEN conjunct1]
  note reset = C2_routing_invariant [of test_por es_send test_fifo, OF h, THEN conjunct2, rule_format,
      OF t, THEN conjunct2, of "run es_send s_boot"]
  have vals:
    "interruptRouting (run es_send s_boot) = Some TxComplete"
    "radioState (run es_send s_boot) = Some Transmitting"
    "radioState (run es_sent s_boot) = Some Receiving"
    "interruptRouting (run es_sent s_boot) = Some RxComplete"
    by (simp_all add: es_send_def es_sent_def eval_simps interruptRouting_def radioState_def)
  show ?thesis
    using h t send sent reset vals by (simp add: s_boot_def)
qed


end
